theory Spec2Isabelle
  imports Main "HOL-Library.Word" "HOL-Library.Signed_Division"
begin

section \<open>Quorum rotation info and quorum snapshots (src/llmq/snapshot.cpp)\<close>

text \<open>
  A shallow embedding of \<^verbatim>\<open>BuildQuorumRotationInfo\<close>, \<^verbatim>\<open>GetLastBaseBlockHash\<close> and of
  the two operations of \<^verbatim>\<open>CQuorumSnapshotManager\<close>. Reference parameters of the C++
  code (\<^verbatim>\<open>response\<close>, \<^verbatim>\<open>errorRet\<close>) and the snapshot manager are passed in and returned.
\<close>

subsection \<open>Data\<close>

type_synonym uint256 = "256 word"

text \<open>\<^verbatim>\<open>Consensus::LLMQType\<close> is an enumeration over \<^verbatim>\<open>uint8_t\<close>.\<close>

type_synonym LLMQType = "8 word"

text \<open>
  Of a \<^verbatim>\<open>CBlockIndex\<close> the code reads the \<^verbatim>\<open>int\<close> member \<^verbatim>\<open>nHeight\<close> and the block hash.
  A non-null \<^verbatim>\<open>const CBlockIndex*\<close> is a value of this record, a possibly null one an option.
\<close>

record CBlockIndex =
  nHeight :: int
  phashBlock :: uint256

definition GetBlockHash :: "CBlockIndex \<Rightarrow> uint256" where
  "GetBlockHash b = phashBlock b"

record CQuorumSnapshot =
  activeQuorumMembers :: "bool list"
  mnSkipListMode :: int
  mnSkipList :: "int list"

text \<open>The masternode list diffs are opaque to this file: the type parameter \<open>'d\<close>.\<close>

record 'd CQuorumRotationInfo =
  creationHeight :: int
  quorumSnapshotAtHMinusC :: CQuorumSnapshot
  quorumSnapshotAtHMinus2C :: CQuorumSnapshot
  quorumSnapshotAtHMinus3C :: CQuorumSnapshot
  mnListDiffTip :: 'd
  mnListDiffAtHMinusC :: 'd
  mnListDiffAtHMinus2C :: 'd
  mnListDiffAtHMinus3C :: 'd

record CGetQuorumRotationInfo =
  baseBlockHashesNb :: "32 word"
  baseBlockHashes :: "uint256 list"
  blockRequestHash :: uint256

subsection \<open>GetLastBaseBlockHash\<close>

text \<open>
  The loop of \<^verbatim>\<open>GetLastBaseBlockHash\<close>, with the local \<^verbatim>\<open>hash\<close> as accumulator:
  \<^verbatim>\<open>break\<close> returns the accumulator, any other entry overwrites it.
\<close>

fun GetLastBaseBlockHash_loop :: "CBlockIndex list \<Rightarrow> CBlockIndex \<Rightarrow> uint256 \<Rightarrow> uint256" where
  "GetLastBaseBlockHash_loop [] blockIndex hash = hash"
| "GetLastBaseBlockHash_loop (baseBlock # rest) blockIndex hash =
     (if nHeight baseBlock > nHeight blockIndex then hash
      else GetLastBaseBlockHash_loop rest blockIndex (GetBlockHash baseBlock))"

text \<open>A default-constructed \<^verbatim>\<open>uint256\<close> is all zero.\<close>

definition GetLastBaseBlockHash :: "CBlockIndex list \<Rightarrow> CBlockIndex \<Rightarrow> uint256" where
  "GetLastBaseBlockHash baseBlockIndexes blockIndex =
     GetLastBaseBlockHash_loop baseBlockIndexes blockIndex 0"

text \<open>
  The order \<^verbatim>\<open>std::sort\<close> establishes with the comparison \<^verbatim>\<open>a->nHeight < b->nHeight\<close>.
\<close>

definition sorted_by_height :: "CBlockIndex list \<Rightarrow> bool" where
  "sorted_by_height bs = sorted_wrt (\<lambda>a b. nHeight a \<le> nHeight b) bs"

text \<open>
  The anchor in the words of the specification: an entry of the base list of height at
  most the height of \<open>b\<close>, and of the greatest height among such entries.
\<close>

definition is_anchor :: "CBlockIndex list \<Rightarrow> CBlockIndex \<Rightarrow> CBlockIndex \<Rightarrow> bool" where
  "is_anchor bs b x \<longleftrightarrow>
     x \<in> set bs \<and> nHeight x \<le> nHeight b \<and>
     (\<forall>y \<in> set bs. nHeight y \<le> nHeight b \<longrightarrow> nHeight y \<le> nHeight x)"

subsection \<open>The snapshot manager\<close>

definition DB_QUORUM_SNAPSHOT :: string where
  "DB_QUORUM_SNAPSHOT = ''llmq_S''"

text \<open>
  The members of \<^verbatim>\<open>CQuorumSnapshotManager\<close> are declared in llmq/snapshot.h. The code uses
  \<^verbatim>\<open>quorumSnapshotCache\<close> through \<^verbatim>\<open>find\<close>, \<^verbatim>\<open>end\<close>, \<^verbatim>\<open>it->second\<close> and
  \<^verbatim>\<open>emplace(key, value)\<close>, the interface of the standard associative containers with
  unique keys: a finite map. The member \<^verbatim>\<open>evoDb\<close> is the persistent store, here the map
  from the keys to the values it holds.
\<close>

record CQuorumSnapshotManager =
  quorumSnapshotCache :: "uint256 \<rightharpoonup> CQuorumSnapshot"
  evoDb :: "string \<times> uint256 \<rightharpoonup> CQuorumSnapshot"

text \<open>
  \<^verbatim>\<open>emplace\<close> of a container with unique keys inserts the element only when the container
  holds no element with that key; otherwise the container is left as it is.
\<close>

definition emplace :: "('k \<rightharpoonup> 'v) \<Rightarrow> 'k \<Rightarrow> 'v \<Rightarrow> ('k \<rightharpoonup> 'v)" where
  "emplace m k v = (case m k of None \<Rightarrow> m(k \<mapsto> v) | Some _ \<Rightarrow> m)"

text \<open>
  Modelled from the spec: \<^verbatim>\<open>CEvoDB::Write\<close> (evo/evodb.h, not part of the source) writes
  the entry of a key of the persistent key-value store, one entry per key.
\<close>

definition Write_db :: "('k \<rightharpoonup> 'v) \<Rightarrow> 'k \<Rightarrow> 'v \<Rightarrow> ('k \<rightharpoonup> 'v)" where
  "Write_db db k v = db(k \<mapsto> v)"

text \<open>
  Modelled from the spec: \<^verbatim>\<open>CEvoDB::Read\<close> (evo/evodb.h, not part of the source) finds
  the entry written last under the key, and fails when there is none.
\<close>

definition Read_db :: "('k \<rightharpoonup> 'v) \<Rightarrow> 'k \<Rightarrow> 'v option" where
  "Read_db db k = db k"

text \<open>
  \<^verbatim>\<open>::SerializeHash\<close> (hash.h) is a parameter \<open>SerializeHash\<close> of both operations. The
  locks taken by the operations have no counterpart in this sequential model.
\<close>

definition GetSnapshotForBlock ::
  "(LLMQType \<times> uint256 \<Rightarrow> uint256) \<Rightarrow> LLMQType \<Rightarrow> CBlockIndex \<Rightarrow> CQuorumSnapshotManager
     \<Rightarrow> CQuorumSnapshot option \<times> CQuorumSnapshotManager" where
  "GetSnapshotForBlock SerializeHash llmqType pindex mgr =
     (let snapshotHash = SerializeHash (llmqType, GetBlockHash pindex) in
      case quorumSnapshotCache mgr snapshotHash of
        Some snapshot \<Rightarrow> (Some snapshot, mgr)
      | None \<Rightarrow>
          (case Read_db (evoDb mgr) (DB_QUORUM_SNAPSHOT, snapshotHash) of
             Some snapshot \<Rightarrow>
               (Some snapshot,
                mgr\<lparr>quorumSnapshotCache := emplace (quorumSnapshotCache mgr) snapshotHash snapshot\<rparr>)
           | None \<Rightarrow> (None, mgr)))"

definition StoreSnapshotForBlock ::
  "(LLMQType \<times> uint256 \<Rightarrow> uint256) \<Rightarrow> LLMQType \<Rightarrow> CBlockIndex \<Rightarrow> CQuorumSnapshot
     \<Rightarrow> CQuorumSnapshotManager \<Rightarrow> CQuorumSnapshotManager" where
  "StoreSnapshotForBlock SerializeHash llmqType pindex snapshot mgr =
     (let snapshotHash = SerializeHash (llmqType, GetBlockHash pindex) in
      mgr\<lparr>evoDb := Write_db (evoDb mgr) (DB_QUORUM_SNAPSHOT, snapshotHash) snapshot,
          quorumSnapshotCache := emplace (quorumSnapshotCache mgr) snapshotHash snapshot\<rparr>)"

subsection \<open>The environment of BuildQuorumRotationInfo\<close>

text \<open>
  What \<^verbatim>\<open>BuildQuorumRotationInfo\<close> calls and the repository defines outside this file is
  a parameter of the model, one field each: the active chain (\<^verbatim>\<open>::ChainActive().Genesis()\<close>,
  \<^verbatim>\<open>Tip()\<close>, \<^verbatim>\<open>Contains\<close>), \<^verbatim>\<open>LookupBlockIndex\<close>, \<^verbatim>\<open>CBlockIndex::GetAncestor\<close>,
  \<^verbatim>\<open>BuildSimplifiedMNListDiff\<close> (which may write its two reference parameters, the diff
  and the error text, whatever it returns), the consensus parameters
  \<^verbatim>\<open>llmqTypeInstantSend\<close> and \<^verbatim>\<open>GetLLMQParams(type).dkgInterval\<close>, \<^verbatim>\<open>::SerializeHash\<close>
  and \<^verbatim>\<open>uint256::ToString\<close>.
\<close>

record 'd chain_env =
  Genesis :: "CBlockIndex option"
  Tip :: "CBlockIndex option"
  Contains :: "CBlockIndex \<Rightarrow> bool"
  LookupBlockIndex :: "uint256 \<Rightarrow> CBlockIndex option"
  GetAncestor :: "CBlockIndex \<Rightarrow> int \<Rightarrow> CBlockIndex option"
  BuildSimplifiedMNListDiff :: "uint256 \<Rightarrow> uint256 \<Rightarrow> 'd \<Rightarrow> string \<Rightarrow> bool \<times> 'd \<times> string"
  llmqTypeInstantSend :: LLMQType
  dkgInterval :: "LLMQType \<Rightarrow> int"
  SerializeHash :: "LLMQType \<times> uint256 \<Rightarrow> uint256"
  ToString :: "uint256 \<Rightarrow> string"

subsection \<open>Arithmetic on int\<close>

text \<open>
  The heights and the cycle length are C++ \<^verbatim>\<open>int\<close>s (32 bits). They are integers here, and
  an operation whose behaviour C++ leaves undefined has no result (\<open>None\<close>): a remainder
  by zero or of \<^verbatim>\<open>INT_MIN\<close> by \<open>-1\<close>, and a difference or product outside the range of
  \<^verbatim>\<open>int\<close>. The remainder \<^verbatim>\<open>%\<close> truncates towards zero: \<open>smod\<close>.
\<close>

definition INT_MIN :: int where
  "INT_MIN = - (2 ^ 31)"

definition INT_MAX :: int where
  "INT_MAX = 2 ^ 31 - 1"

definition in_int :: "int \<Rightarrow> int option" where
  "in_int x = (if INT_MIN \<le> x \<and> x \<le> INT_MAX then Some x else None)"

definition int_rem :: "int \<Rightarrow> int \<Rightarrow> int option" where
  "int_rem a b = (if b = 0 \<or> (a = INT_MIN \<and> b = - 1) then None else Some (a smod b))"

definition int_sub :: "int \<Rightarrow> int \<Rightarrow> int option" where
  "int_sub a b = in_int (a - b)"

definition int_mul :: "int \<Rightarrow> int \<Rightarrow> int option" where
  "int_mul a b = in_int (a * b)"

subsection \<open>BuildQuorumRotationInfo\<close>

text \<open>
  The result of a call: \<open>None\<close> when the behaviour is undefined, otherwise the returned
  \<^verbatim>\<open>bool\<close> with the reference parameters \<^verbatim>\<open>response\<close> and \<^verbatim>\<open>errorRet\<close> and the snapshot
  manager as the call leaves them.
\<close>

type_synonym 'd build_result =
  "bool \<times> 'd CQuorumRotationInfo \<times> string \<times> CQuorumSnapshotManager"

text \<open>The loop over \<^verbatim>\<open>request.baseBlockHashes\<close> (lines 110 to 121).\<close>

fun lookup_base_blocks ::
  "'d chain_env \<Rightarrow> uint256 list \<Rightarrow> CBlockIndex list \<Rightarrow> string + CBlockIndex list" where
  "lookup_base_blocks env [] baseBlockIndexes = Inr baseBlockIndexes"
| "lookup_base_blocks env (blockHash # rest) baseBlockIndexes =
     (case LookupBlockIndex env blockHash of
        None \<Rightarrow> Inl (''block '' @ ToString env blockHash @ '' not found'')
      | Some blockIndex \<Rightarrow>
          if \<not> Contains env blockIndex
          then Inl (''block '' @ ToString env blockHash @ '' is not in the active chain'')
          else lookup_base_blocks env rest (baseBlockIndexes @ [blockIndex]))"

text \<open>
  Lines 100 to 125. \<^verbatim>\<open>std::sort\<close> leaves the order of entries of equal height open;
  \<open>sort_key\<close> keeps them in the order of the request.
\<close>

definition base_block_indexes ::
  "'d chain_env \<Rightarrow> CGetQuorumRotationInfo \<Rightarrow> string + CBlockIndex list" where
  "base_block_indexes env request =
     (if baseBlockHashesNb request = 0 then
        (case Genesis env of
           None \<Rightarrow> Inl ''genesis block not found''
         | Some blockIndex \<Rightarrow> Inr [blockIndex])
      else
        (case lookup_base_blocks env (baseBlockHashes request) [] of
           Inl e \<Rightarrow> Inl e
         | Inr baseBlockIndexes \<Rightarrow> Inr (sort_key nHeight baseBlockIndexes)))"

text \<open>
  Lines 197 to 210: the diff and the snapshot at H-3C, and the successful return.
\<close>

definition build_at_HMinus3C ::
  "'d chain_env \<Rightarrow> CBlockIndex list \<Rightarrow> CBlockIndex
     \<Rightarrow> 'd CQuorumRotationInfo \<Rightarrow> string \<Rightarrow> CQuorumSnapshotManager \<Rightarrow> 'd build_result" where
  "build_at_HMinus3C env baseBlockIndexes pBlockHMinus3CIndex response errorRet mgr =
     (case BuildSimplifiedMNListDiff env (GetLastBaseBlockHash baseBlockIndexes pBlockHMinus3CIndex)
             (GetBlockHash pBlockHMinus3CIndex) (mnListDiffAtHMinus3C response) errorRet of
        (ok, d, errorRet1) \<Rightarrow>
          (if \<not> ok then (False, response\<lparr>mnListDiffAtHMinus3C := d\<rparr>, errorRet1, mgr)
           else
             (case GetSnapshotForBlock (SerializeHash env) (llmqTypeInstantSend env)
                     pBlockHMinus3CIndex mgr of
                (None, mgr1) \<Rightarrow>
                  (False, response\<lparr>mnListDiffAtHMinus3C := d\<rparr>,
                   ''Can not find quorum snapshot at H-C'', mgr1)
              | (Some snapshotHMinus3C, mgr1) \<Rightarrow>
                  (True, response\<lparr>mnListDiffAtHMinus3C := d,
                                   quorumSnapshotAtHMinus3C := snapshotHMinus3C\<rparr>,
                   errorRet1, mgr1))))"

text \<open>Lines 184 to 195: the diff and the snapshot at H-2C, then the part above.\<close>

definition build_at_HMinus2C ::
  "'d chain_env \<Rightarrow> CBlockIndex list \<Rightarrow> CBlockIndex \<Rightarrow> CBlockIndex
     \<Rightarrow> 'd CQuorumRotationInfo \<Rightarrow> string \<Rightarrow> CQuorumSnapshotManager \<Rightarrow> 'd build_result" where
  "build_at_HMinus2C env baseBlockIndexes pBlockHMinus2CIndex pBlockHMinus3CIndex
       response errorRet mgr =
     (case BuildSimplifiedMNListDiff env (GetLastBaseBlockHash baseBlockIndexes pBlockHMinus2CIndex)
             (GetBlockHash pBlockHMinus2CIndex) (mnListDiffAtHMinus2C response) errorRet of
        (ok, d, errorRet1) \<Rightarrow>
          (if \<not> ok then (False, response\<lparr>mnListDiffAtHMinus2C := d\<rparr>, errorRet1, mgr)
           else
             (case GetSnapshotForBlock (SerializeHash env) (llmqTypeInstantSend env)
                     pBlockHMinus2CIndex mgr of
                (None, mgr1) \<Rightarrow>
                  (False, response\<lparr>mnListDiffAtHMinus2C := d\<rparr>,
                   ''Can not find quorum snapshot at H-C'', mgr1)
              | (Some snapshotHMinus2C, mgr1) \<Rightarrow>
                  build_at_HMinus3C env baseBlockIndexes pBlockHMinus3CIndex
                    (response\<lparr>mnListDiffAtHMinus2C := d,
                               quorumSnapshotAtHMinus2C := snapshotHMinus2C\<rparr>)
                    errorRet1 mgr1)))"

text \<open>Lines 171 to 182: the diff and the snapshot at H-C, then the part above.\<close>

definition build_at_HMinusC ::
  "'d chain_env \<Rightarrow> CBlockIndex list \<Rightarrow> CBlockIndex \<Rightarrow> CBlockIndex \<Rightarrow> CBlockIndex
     \<Rightarrow> 'd CQuorumRotationInfo \<Rightarrow> string \<Rightarrow> CQuorumSnapshotManager \<Rightarrow> 'd build_result" where
  "build_at_HMinusC env baseBlockIndexes pBlockHMinusCIndex pBlockHMinus2CIndex
       pBlockHMinus3CIndex response errorRet mgr =
     (case BuildSimplifiedMNListDiff env (GetLastBaseBlockHash baseBlockIndexes pBlockHMinusCIndex)
             (GetBlockHash pBlockHMinusCIndex) (mnListDiffAtHMinusC response) errorRet of
        (ok, d, errorRet1) \<Rightarrow>
          (if \<not> ok then (False, response\<lparr>mnListDiffAtHMinusC := d\<rparr>, errorRet1, mgr)
           else
             (case GetSnapshotForBlock (SerializeHash env) (llmqTypeInstantSend env)
                     pBlockHMinusCIndex mgr of
                (None, mgr1) \<Rightarrow>
                  (False, response\<lparr>mnListDiffAtHMinusC := d\<rparr>,
                   ''Can not find quorum snapshot at H-C'', mgr1)
              | (Some snapshotHMinusC, mgr1) \<Rightarrow>
                  build_at_HMinus2C env baseBlockIndexes pBlockHMinus2CIndex pBlockHMinus3CIndex
                    (response\<lparr>mnListDiffAtHMinusC := d,
                               quorumSnapshotAtHMinusC := snapshotHMinusC\<rparr>)
                    errorRet1 mgr1)))"

text \<open>
  Lines 154 to 169: the blocks H-C, H-2C and H-3C, from the tip and the block H found
  before; then the parts above.
\<close>

definition build_cycle_blocks ::
  "'d chain_env \<Rightarrow> CBlockIndex list \<Rightarrow> CBlockIndex \<Rightarrow> CBlockIndex
     \<Rightarrow> 'd CQuorumRotationInfo \<Rightarrow> string \<Rightarrow> CQuorumSnapshotManager \<Rightarrow> 'd build_result option" where
  "build_cycle_blocks env baseBlockIndexes tipBlockIndex hBlockIndex response errorRet mgr =
     (let cycleLength = dkgInterval env (llmqTypeInstantSend env) in
      case int_sub (nHeight hBlockIndex) cycleLength of
        None \<Rightarrow> None
      | Some hC \<Rightarrow>
     (case GetAncestor env tipBlockIndex hC of
        None \<Rightarrow> Some (False, response, ''Can not find block H-C'', mgr)
      | Some pBlockHMinusCIndex \<Rightarrow>
     (case Option.bind (int_mul 2 cycleLength) (int_sub (nHeight hBlockIndex)) of
        None \<Rightarrow> None
      | Some h2C \<Rightarrow>
     (case GetAncestor env pBlockHMinusCIndex h2C of
        None \<Rightarrow> Some (False, response, ''Can not find block H-2C'', mgr)
      | Some pBlockHMinus2CIndex \<Rightarrow>
     (case Option.bind (int_mul 3 cycleLength) (int_sub (nHeight hBlockIndex)) of
        None \<Rightarrow> None
      | Some h3C \<Rightarrow>
     (case GetAncestor env pBlockHMinusCIndex h3C of
        None \<Rightarrow> Some (False, response, ''Can not find block H-3C'', mgr)
      | Some pBlockHMinus3CIndex \<Rightarrow>
          Some (build_at_HMinusC env baseBlockIndexes pBlockHMinusCIndex
                  pBlockHMinus2CIndex pBlockHMinus3CIndex response errorRet mgr)))))))"

text \<open>
  Lines 144 to 152: the cycle length, the block H of the target \<^verbatim>\<open>blockIndex\<close> and the
  assignment of \<^verbatim>\<open>response.creationHeight\<close>; then the parts above.
\<close>

definition build_from_target ::
  "'d chain_env \<Rightarrow> CBlockIndex list \<Rightarrow> CBlockIndex \<Rightarrow> CBlockIndex
     \<Rightarrow> 'd CQuorumRotationInfo \<Rightarrow> string \<Rightarrow> CQuorumSnapshotManager \<Rightarrow> 'd build_result option" where
  "build_from_target env baseBlockIndexes tipBlockIndex blockIndex response errorRet mgr =
     (let cycleLength = dkgInterval env (llmqTypeInstantSend env) in
      case Option.bind (int_rem (nHeight blockIndex) cycleLength) (int_sub (nHeight blockIndex)) of
        None \<Rightarrow> None
      | Some hHeight \<Rightarrow>
     (case GetAncestor env blockIndex hHeight of
        None \<Rightarrow> Some (False, response, ''Can not find block H'', mgr)
      | Some hBlockIndex \<Rightarrow>
          build_cycle_blocks env baseBlockIndexes tipBlockIndex hBlockIndex
            (response\<lparr>creationHeight := nHeight hBlockIndex\<rparr>) errorRet mgr))"

text \<open>The function from its first line to line 141; then the parts above.\<close>

definition BuildQuorumRotationInfo ::
  "'d chain_env \<Rightarrow> CGetQuorumRotationInfo \<Rightarrow> 'd CQuorumRotationInfo \<Rightarrow> string
     \<Rightarrow> CQuorumSnapshotManager \<Rightarrow> 'd build_result option" where
  "BuildQuorumRotationInfo env request response errorRet mgr =
     (if unat (baseBlockHashesNb request) > 4 then
        Some (False, response, ''invalid requested baseBlockHashesNb'', mgr)
      else if unat (baseBlockHashesNb request) \<noteq> length (baseBlockHashes request) then
        Some (False, response,
              ''missmatch requested baseBlockHashesNb and size(baseBlockHashes)'', mgr)
      else
       (case base_block_indexes env request of
          Inl e \<Rightarrow> Some (False, response, e, mgr)
        | Inr baseBlockIndexes \<Rightarrow>
       (case Tip env of
          None \<Rightarrow> Some (False, response, ''tip block not found'', mgr)
        | Some tipBlockIndex \<Rightarrow>
       (case BuildSimplifiedMNListDiff env (GetBlockHash (last baseBlockIndexes))
               (GetBlockHash tipBlockIndex) (mnListDiffTip response) errorRet of
          (ok, d, errorRet1) \<Rightarrow>
            (if \<not> ok then Some (False, response\<lparr>mnListDiffTip := d\<rparr>, errorRet1, mgr)
             else
               (case LookupBlockIndex env (blockRequestHash request) of
                  None \<Rightarrow> Some (False, response\<lparr>mnListDiffTip := d\<rparr>, ''block not found'', mgr)
                | Some blockIndex \<Rightarrow>
                    build_from_target env baseBlockIndexes tipBlockIndex blockIndex
                      (response\<lparr>mnListDiffTip := d\<rparr>) errorRet1 mgr))))))"

subsection \<open>What a successful call returns\<close>

text \<open>
  The three diffs and the three snapshots of the response \<open>r'\<close> of a call are those built
  and fetched for the blocks \<open>p1\<close>, \<open>p2\<close> and \<open>p3\<close>, in the order of the code, from the
  response \<open>r\<close> and the manager \<open>m\<close> of the caller: each diff from the anchor that
  \<^verbatim>\<open>GetLastBaseBlockHash\<close> selects for the block to the hash of the block.
\<close>

definition diffs_and_snapshots_for ::
  "'d chain_env \<Rightarrow> CBlockIndex list \<Rightarrow> CBlockIndex \<Rightarrow> CBlockIndex \<Rightarrow> CBlockIndex
     \<Rightarrow> 'd CQuorumRotationInfo \<Rightarrow> CQuorumSnapshotManager
     \<Rightarrow> 'd CQuorumRotationInfo \<Rightarrow> string \<Rightarrow> CQuorumSnapshotManager \<Rightarrow> bool" where
  "diffs_and_snapshots_for env bases p1 p2 p3 r m r' e' m' \<longleftrightarrow>
     (\<exists>e1 e2 e3 m1 m2.
        BuildSimplifiedMNListDiff env (GetLastBaseBlockHash bases p1) (GetBlockHash p1)
          (mnListDiffAtHMinusC r) e1 = (True, mnListDiffAtHMinusC r', e2)
      \<and> GetSnapshotForBlock (SerializeHash env) (llmqTypeInstantSend env) p1 m
          = (Some (quorumSnapshotAtHMinusC r'), m1)
      \<and> BuildSimplifiedMNListDiff env (GetLastBaseBlockHash bases p2) (GetBlockHash p2)
          (mnListDiffAtHMinus2C r) e2 = (True, mnListDiffAtHMinus2C r', e3)
      \<and> GetSnapshotForBlock (SerializeHash env) (llmqTypeInstantSend env) p2 m1
          = (Some (quorumSnapshotAtHMinus2C r'), m2)
      \<and> BuildSimplifiedMNListDiff env (GetLastBaseBlockHash bases p3) (GetBlockHash p3)
          (mnListDiffAtHMinus3C r) e3 = (True, mnListDiffAtHMinus3C r', e')
      \<and> GetSnapshotForBlock (SerializeHash env) (llmqTypeInstantSend env) p3 m2
          = (Some (quorumSnapshotAtHMinus3C r'), m'))"

subsection \<open>The outcome of a call, step by step\<close>

text \<open>
  The steps of the specification from the target block on (steps 5 to 8), as relations
  between the state before a step and what the call returns: the returned \<^verbatim>\<open>bool\<close> \<open>ok\<close>,
  the response \<open>r'\<close>, the error text \<open>e'\<close> and the manager \<open>m'\<close>. They are written from
  the specification, to compare the function with.

  Step 7 at one block \<open>p\<close>, done: the diff from the anchor of \<open>p\<close> is built, from the diff
  \<open>d0\<close> of the caller and the error text \<open>e\<close>, and the snapshot of \<open>p\<close> is found.
\<close>

definition diff_and_snapshot_at ::
  "'d chain_env \<Rightarrow> CBlockIndex list \<Rightarrow> CBlockIndex \<Rightarrow> 'd \<Rightarrow> string \<Rightarrow> CQuorumSnapshotManager
     \<Rightarrow> 'd \<Rightarrow> CQuorumSnapshot \<Rightarrow> string \<Rightarrow> CQuorumSnapshotManager \<Rightarrow> bool" where
  "diff_and_snapshot_at env bases p d0 e m d s e' m' \<longleftrightarrow>
     BuildSimplifiedMNListDiff env (GetLastBaseBlockHash bases p) (GetBlockHash p) d0 e
       = (True, d, e')
   \<and> GetSnapshotForBlock (SerializeHash env) (llmqTypeInstantSend env) p m = (Some s, m')"

text \<open>
  Step 7 at one block \<open>p\<close>, failed: the diff builder returns false, leaving the diff \<open>d\<close>
  and the error text \<open>e'\<close>, and the snapshot is not asked for; or the diff \<open>d\<close> is built,
  the snapshot is absent and the error text is the one of the code.
\<close>

definition diff_or_snapshot_fails_at ::
  "'d chain_env \<Rightarrow> CBlockIndex list \<Rightarrow> CBlockIndex \<Rightarrow> 'd \<Rightarrow> string \<Rightarrow> CQuorumSnapshotManager
     \<Rightarrow> 'd \<Rightarrow> string \<Rightarrow> CQuorumSnapshotManager \<Rightarrow> bool" where
  "diff_or_snapshot_fails_at env bases p d0 e m d e' m' \<longleftrightarrow>
     (BuildSimplifiedMNListDiff env (GetLastBaseBlockHash bases p) (GetBlockHash p) d0 e
        = (False, d, e')
      \<and> m' = m)
   \<or> (\<exists>e1. BuildSimplifiedMNListDiff env (GetLastBaseBlockHash bases p) (GetBlockHash p) d0 e
              = (True, d, e1)
          \<and> GetSnapshotForBlock (SerializeHash env) (llmqTypeInstantSend env) p m = (None, m')
          \<and> e' = ''Can not find quorum snapshot at H-C'')"

text \<open>
  Steps 7 and 8 for the blocks \<open>p1\<close>, \<open>p2\<close>, \<open>p3\<close> (H-C, H-2C, H-3C), from the response
  \<open>r\<close>: the call fails at the first block whose diff or snapshot fails, with the fields
  of the blocks before it and the diff of that block assigned, or it succeeds with the six
  fields assigned.
\<close>

definition outcome_at_blocks ::
  "'d chain_env \<Rightarrow> CBlockIndex list \<Rightarrow> CBlockIndex \<Rightarrow> CBlockIndex \<Rightarrow> CBlockIndex
     \<Rightarrow> 'd CQuorumRotationInfo \<Rightarrow> string \<Rightarrow> CQuorumSnapshotManager
     \<Rightarrow> bool \<Rightarrow> 'd CQuorumRotationInfo \<Rightarrow> string \<Rightarrow> CQuorumSnapshotManager \<Rightarrow> bool" where
  "outcome_at_blocks env bases p1 p2 p3 r e m ok r' e' m' \<longleftrightarrow>
     (\<not> ok \<and> (\<exists>d1.
          diff_or_snapshot_fails_at env bases p1 (mnListDiffAtHMinusC r) e m d1 e' m'
        \<and> r' = r\<lparr>mnListDiffAtHMinusC := d1\<rparr>))
   \<or> (\<not> ok \<and> (\<exists>d1 s1 e1 m1 d2.
          diff_and_snapshot_at env bases p1 (mnListDiffAtHMinusC r) e m d1 s1 e1 m1
        \<and> diff_or_snapshot_fails_at env bases p2 (mnListDiffAtHMinus2C r) e1 m1 d2 e' m'
        \<and> r' = r\<lparr>mnListDiffAtHMinusC := d1, quorumSnapshotAtHMinusC := s1,
                   mnListDiffAtHMinus2C := d2\<rparr>))
   \<or> (\<not> ok \<and> (\<exists>d1 s1 e1 m1 d2 s2 e2 m2 d3.
          diff_and_snapshot_at env bases p1 (mnListDiffAtHMinusC r) e m d1 s1 e1 m1
        \<and> diff_and_snapshot_at env bases p2 (mnListDiffAtHMinus2C r) e1 m1 d2 s2 e2 m2
        \<and> diff_or_snapshot_fails_at env bases p3 (mnListDiffAtHMinus3C r) e2 m2 d3 e' m'
        \<and> r' = r\<lparr>mnListDiffAtHMinusC := d1, quorumSnapshotAtHMinusC := s1,
                   mnListDiffAtHMinus2C := d2, quorumSnapshotAtHMinus2C := s2,
                   mnListDiffAtHMinus3C := d3\<rparr>))
   \<or> (ok \<and> (\<exists>d1 s1 e1 m1 d2 s2 e2 m2 d3 s3.
          diff_and_snapshot_at env bases p1 (mnListDiffAtHMinusC r) e m d1 s1 e1 m1
        \<and> diff_and_snapshot_at env bases p2 (mnListDiffAtHMinus2C r) e1 m1 d2 s2 e2 m2
        \<and> diff_and_snapshot_at env bases p3 (mnListDiffAtHMinus3C r) e2 m2 d3 s3 e' m'
        \<and> r' = r\<lparr>mnListDiffAtHMinusC := d1, quorumSnapshotAtHMinusC := s1,
                   mnListDiffAtHMinus2C := d2, quorumSnapshotAtHMinus2C := s2,
                   mnListDiffAtHMinus3C := d3, quorumSnapshotAtHMinus3C := s3\<rparr>))"

text \<open>
  Step 6 and the steps after it, from the block H \<open>hB\<close> and the response \<open>r\<close> (which
  holds \<^verbatim>\<open>creationHeight\<close> already): H-C is the ancestor of the tip, H-2C and H-3C those
  of H-C; the call fails at the first of them that is not found, with the response as it
  is, the text of that block and the manager as it is.
\<close>

definition outcome_from_H ::
  "'d chain_env \<Rightarrow> CBlockIndex list \<Rightarrow> CBlockIndex \<Rightarrow> CBlockIndex
     \<Rightarrow> 'd CQuorumRotationInfo \<Rightarrow> string \<Rightarrow> CQuorumSnapshotManager
     \<Rightarrow> bool \<Rightarrow> 'd CQuorumRotationInfo \<Rightarrow> string \<Rightarrow> CQuorumSnapshotManager \<Rightarrow> bool" where
  "outcome_from_H env bases tip hB r e m ok r' e' m' \<longleftrightarrow>
     (GetAncestor env tip (nHeight hB - dkgInterval env (llmqTypeInstantSend env)) = None
      \<and> \<not> ok \<and> r' = r \<and> e' = ''Can not find block H-C'' \<and> m' = m)
   \<or> (\<exists>p1.
        GetAncestor env tip (nHeight hB - dkgInterval env (llmqTypeInstantSend env)) = Some p1
      \<and> ((GetAncestor env p1 (nHeight hB - 2 * dkgInterval env (llmqTypeInstantSend env)) = None
           \<and> \<not> ok \<and> r' = r \<and> e' = ''Can not find block H-2C'' \<and> m' = m)
        \<or> (\<exists>p2.
             GetAncestor env p1 (nHeight hB - 2 * dkgInterval env (llmqTypeInstantSend env))
               = Some p2
           \<and> ((GetAncestor env p1 (nHeight hB - 3 * dkgInterval env (llmqTypeInstantSend env))
                  = None
                \<and> \<not> ok \<and> r' = r \<and> e' = ''Can not find block H-3C'' \<and> m' = m)
             \<or> (\<exists>p3.
                  GetAncestor env p1 (nHeight hB - 3 * dkgInterval env (llmqTypeInstantSend env))
                    = Some p3
                \<and> outcome_at_blocks env bases p1 p2 p3 r e m ok r' e' m')))))"

text \<open>
  Step 5 and the steps after it, from the target block \<open>b\<close>: the block H is the ancestor
  of \<open>b\<close> at the start of its cycle; the call fails when there is none, with the response
  as it is, and goes on with \<^verbatim>\<open>creationHeight\<close> assigned otherwise.
\<close>

definition outcome_from_target ::
  "'d chain_env \<Rightarrow> CBlockIndex list \<Rightarrow> CBlockIndex \<Rightarrow> CBlockIndex
     \<Rightarrow> 'd CQuorumRotationInfo \<Rightarrow> string \<Rightarrow> CQuorumSnapshotManager
     \<Rightarrow> bool \<Rightarrow> 'd CQuorumRotationInfo \<Rightarrow> string \<Rightarrow> CQuorumSnapshotManager \<Rightarrow> bool" where
  "outcome_from_target env bases tip b r e m ok r' e' m' \<longleftrightarrow>
     (GetAncestor env b (nHeight b - nHeight b smod dkgInterval env (llmqTypeInstantSend env))
        = None
      \<and> \<not> ok \<and> r' = r \<and> e' = ''Can not find block H'' \<and> m' = m)
   \<or> (\<exists>hB.
        GetAncestor env b (nHeight b - nHeight b smod dkgInterval env (llmqTypeInstantSend env))
          = Some hB
      \<and> outcome_from_H env bases tip hB (r\<lparr>creationHeight := nHeight hB\<rparr>) e m ok r' e' m')"

text \<open>
  The first hash of the list that \<^verbatim>\<open>LookupBlockIndex\<close> does not find, or finds outside the
  active chain, with the error text of the code for it: the hashes before it are found on
  the active chain.
\<close>

definition first_bad_base_hash :: "'d chain_env \<Rightarrow> uint256 list \<Rightarrow> string \<Rightarrow> bool" where
  "first_bad_base_hash env hashes e' \<longleftrightarrow>
     (\<exists>pre h post. hashes = pre @ h # post
        \<and> list_all (\<lambda>x. case LookupBlockIndex env x of None \<Rightarrow> False | Some bb \<Rightarrow> Contains env bb) pre
        \<and> (case LookupBlockIndex env h of
              None \<Rightarrow> e' = ''block '' @ ToString env h @ '' not found''
            | Some bb \<Rightarrow> \<not> Contains env bb
                \<and> e' = ''block '' @ ToString env h @ '' is not in the active chain''))"

subsection \<open>A chain, requests and snapshot managers to run the functions on\<close>

text \<open>
  A chain of 121 blocks, the block of height \<open>h\<close> with hash \<open>h\<close>, and one more block of
  height 100 and hash 1100 on a fork that leaves the chain after height 99. The cycle
  length is 24, and the diff builder returns the two hashes it is given.
\<close>

definition main_block :: "int \<Rightarrow> CBlockIndex" where
  "main_block h = \<lparr>nHeight = h, phashBlock = of_int h\<rparr>"

definition fork_block :: CBlockIndex where
  "fork_block = \<lparr>nHeight = 100, phashBlock = 1100\<rparr>"

definition example_env :: "(uint256 \<times> uint256) chain_env" where
  "example_env =
     \<lparr>Genesis = Some (main_block 0),
      Tip = Some (main_block 120),
      Contains = (\<lambda>b. 0 \<le> nHeight b \<and> nHeight b \<le> 120 \<and> b = main_block (nHeight b)),
      LookupBlockIndex = (\<lambda>h. if h = 1100 then Some fork_block
                               else if h \<le> 120 then Some (main_block (uint h)) else None),
      GetAncestor = (\<lambda>b h. if h < 0 \<or> nHeight b < h then None
                             else if h = nHeight b then Some b else Some (main_block h)),
      BuildSimplifiedMNListDiff = (\<lambda>baseBlockHash blockHash d e. (True, (baseBlockHash, blockHash), e)),
      llmqTypeInstantSend = 1,
      dkgInterval = (\<lambda>t. 24),
      SerializeHash = (\<lambda>(t, h). h),
      ToString = (\<lambda>h. ''#'')\<rparr>"

definition example_snapshot :: "int \<Rightarrow> CQuorumSnapshot" where
  "example_snapshot n = \<lparr>activeQuorumMembers = [True, False], mnSkipListMode = n, mnSkipList = []\<rparr>"

definition example_db :: "string \<times> uint256 \<rightharpoonup> CQuorumSnapshot" where
  "example_db = [(DB_QUORUM_SNAPSHOT, 72) \<mapsto> example_snapshot 1,
                 (DB_QUORUM_SNAPSHOT, 48) \<mapsto> example_snapshot 2,
                 (DB_QUORUM_SNAPSHOT, 24) \<mapsto> example_snapshot 3]"

definition example_mgr :: CQuorumSnapshotManager where
  "example_mgr = \<lparr>quorumSnapshotCache = Map.empty, evoDb = example_db\<rparr>"

definition example_mgr1 :: CQuorumSnapshotManager where
  "example_mgr1 = \<lparr>quorumSnapshotCache = [72 \<mapsto> example_snapshot 1], evoDb = example_db\<rparr>"

definition example_mgr2 :: CQuorumSnapshotManager where
  "example_mgr2 = \<lparr>quorumSnapshotCache = [72 \<mapsto> example_snapshot 1, 48 \<mapsto> example_snapshot 2],
                    evoDb = example_db\<rparr>"

definition example_mgr3 :: CQuorumSnapshotManager where
  "example_mgr3 = \<lparr>quorumSnapshotCache = [72 \<mapsto> example_snapshot 1, 48 \<mapsto> example_snapshot 2,
                                            24 \<mapsto> example_snapshot 3],
                    evoDb = example_db\<rparr>"

definition mgr_without_snapshots :: CQuorumSnapshotManager where
  "mgr_without_snapshots = \<lparr>quorumSnapshotCache = Map.empty, evoDb = Map.empty\<rparr>"

definition mgr_without_2C :: CQuorumSnapshotManager where
  "mgr_without_2C = \<lparr>quorumSnapshotCache = [72 \<mapsto> example_snapshot 1], evoDb = Map.empty\<rparr>"

definition empty_response :: "(uint256 \<times> uint256) CQuorumRotationInfo" where
  "empty_response =
     \<lparr>creationHeight = 0,
      quorumSnapshotAtHMinusC = example_snapshot 0,
      quorumSnapshotAtHMinus2C = example_snapshot 0,
      quorumSnapshotAtHMinus3C = example_snapshot 0,
      mnListDiffTip = (0, 0), mnListDiffAtHMinusC = (0, 0),
      mnListDiffAtHMinus2C = (0, 0), mnListDiffAtHMinus3C = (0, 0)\<rparr>"

definition example_request :: "uint256 \<Rightarrow> CGetQuorumRotationInfo" where
  "example_request h = \<lparr>baseBlockHashesNb = 2, baseBlockHashes = [80, 30], blockRequestHash = h\<rparr>"

definition example_response :: "(uint256 \<times> uint256) CQuorumRotationInfo" where
  "example_response =
     \<lparr>creationHeight = 96,
      quorumSnapshotAtHMinusC = example_snapshot 1,
      quorumSnapshotAtHMinus2C = example_snapshot 2,
      quorumSnapshotAtHMinus3C = example_snapshot 3,
      mnListDiffTip = (80, 120), mnListDiffAtHMinusC = (30, 72),
      mnListDiffAtHMinus2C = (30, 48), mnListDiffAtHMinus3C = (0, 24)\<rparr>"

section \<open>Properties\<close>

subsection \<open>Lemmas on GetLastBaseBlockHash\<close>

lemma GetLastBaseBlockHash_loop_takeWhile:
  "GetLastBaseBlockHash_loop bs b h =
     (case takeWhile (\<lambda>x. nHeight x \<le> nHeight b) bs of
        [] \<Rightarrow> h | y # ys \<Rightarrow> GetBlockHash (last (y # ys)))"
  by (induction bs arbitrary: h) (auto split: list.splits)

lemma takeWhile_sorted_filter:
  "sorted_by_height bs \<Longrightarrow>
     takeWhile (\<lambda>x. nHeight x \<le> nHeight b) bs = filter (\<lambda>x. nHeight x \<le> nHeight b) bs"
  unfolding sorted_by_height_def
proof (induction bs)
  case Nil
  then show ?case by simp
next
  case (Cons a bs)
  show ?case
  proof (cases "nHeight a \<le> nHeight b")
    case True
    with Cons show ?thesis by simp
  next
    case False
    with Cons.prems have "\<forall>y \<in> set bs. \<not> nHeight y \<le> nHeight b" by fastforce
    then have "filter (\<lambda>x. nHeight x \<le> nHeight b) bs = []" by (simp add: filter_empty_conv)
    with False show ?thesis by simp
  qed
qed

lemma last_sorted_max:
  "sorted_wrt (\<lambda>a b. nHeight a \<le> nHeight b) ys \<Longrightarrow> ys \<noteq> [] \<Longrightarrow> y \<in> set ys \<Longrightarrow> nHeight y \<le> nHeight (last ys)"
  by (induction ys) (auto split: if_splits)

lemma anchor_selected:
  assumes s: "sorted_by_height bs" and q: "\<exists>x\<in>set bs. nHeight x \<le> nHeight b"
  shows "is_anchor bs b (last (filter (\<lambda>x. nHeight x \<le> nHeight b) bs))
       \<and> GetLastBaseBlockHash bs b = GetBlockHash (last (filter (\<lambda>x. nHeight x \<le> nHeight b) bs))"
proof -
  let ?P = "\<lambda>x. nHeight x \<le> nHeight b"
  let ?f = "filter ?P bs"
  from q have ne: "?f \<noteq> []" by (simp add: filter_empty_conv)
  then have mem: "last ?f \<in> set ?f" by (rule last_in_set)
  have sf: "sorted_wrt (\<lambda>a b. nHeight a \<le> nHeight b) ?f"
    using s unfolding sorted_by_height_def by (rule sorted_wrt_filter)
  have mx: "\<forall>y \<in> set bs. ?P y \<longrightarrow> nHeight y \<le> nHeight (last ?f)"
    using last_sorted_max [OF sf ne] by simp
  have "is_anchor bs b (last ?f)"
    unfolding is_anchor_def using mem mx by simp
  moreover have "GetLastBaseBlockHash bs b = GetBlockHash (last ?f)"
    using ne takeWhile_sorted_filter [OF s, of b]
    by (simp add: GetLastBaseBlockHash_def GetLastBaseBlockHash_loop_takeWhile split: list.splits)
  ultimately show ?thesis by simp
qed

lemma no_anchor_zero:
  "\<forall>x\<in>set bs. nHeight b < nHeight x \<Longrightarrow> GetLastBaseBlockHash bs b = 0"
  by (cases bs) (auto simp: GetLastBaseBlockHash_def)


subsection \<open>Lemmas on a successful call of BuildQuorumRotationInfo\<close>

lemma build_at_HMinus3C_True:
  assumes "build_at_HMinus3C env bases p3 r e m = (True, r', e', m')"
  shows "\<exists>d s. BuildSimplifiedMNListDiff env (GetLastBaseBlockHash bases p3) (GetBlockHash p3)
                  (mnListDiffAtHMinus3C r) e = (True, d, e')
             \<and> GetSnapshotForBlock (SerializeHash env) (llmqTypeInstantSend env) p3 m = (Some s, m')
             \<and> r' = r\<lparr>mnListDiffAtHMinus3C := d, quorumSnapshotAtHMinus3C := s\<rparr>"
  using assms unfolding build_at_HMinus3C_def
  by (auto split: prod.splits option.splits if_splits)

lemma build_at_HMinus2C_True:
  assumes "build_at_HMinus2C env bases p2 p3 r e m = (True, r', e', m')"
  shows "\<exists>d s e1 m1. BuildSimplifiedMNListDiff env (GetLastBaseBlockHash bases p2) (GetBlockHash p2)
                  (mnListDiffAtHMinus2C r) e = (True, d, e1)
             \<and> GetSnapshotForBlock (SerializeHash env) (llmqTypeInstantSend env) p2 m = (Some s, m1)
             \<and> build_at_HMinus3C env bases p3
                  (r\<lparr>mnListDiffAtHMinus2C := d, quorumSnapshotAtHMinus2C := s\<rparr>) e1 m1 = (True, r', e', m')"
  using assms unfolding build_at_HMinus2C_def
  by (auto split: prod.splits option.splits if_splits)

lemma build_at_HMinusC_True:
  assumes "build_at_HMinusC env bases p1 p2 p3 r e m = (True, r', e', m')"
  shows "\<exists>d s e1 m1. BuildSimplifiedMNListDiff env (GetLastBaseBlockHash bases p1) (GetBlockHash p1)
                  (mnListDiffAtHMinusC r) e = (True, d, e1)
             \<and> GetSnapshotForBlock (SerializeHash env) (llmqTypeInstantSend env) p1 m = (Some s, m1)
             \<and> build_at_HMinus2C env bases p2 p3
                  (r\<lparr>mnListDiffAtHMinusC := d, quorumSnapshotAtHMinusC := s\<rparr>) e1 m1 = (True, r', e', m')"
  using assms unfolding build_at_HMinusC_def
  by (auto split: prod.splits option.splits if_splits)

lemma int_sub_Some: "int_sub a b = Some x \<Longrightarrow> x = a - b"
  by (auto simp: int_sub_def in_int_def split: if_splits)

lemma int_mul_sub_Some: "Option.bind (int_mul k c) (int_sub a) = Some x \<Longrightarrow> x = a - k * c"
  by (auto simp: int_sub_def int_mul_def in_int_def split: if_splits Option.bind_splits)

lemma int_rem_sub_Some:
  "Option.bind (int_rem a c) (int_sub a) = Some x \<Longrightarrow> x = a - a smod c \<and> c \<noteq> 0"
  by (auto simp: int_sub_def int_rem_def in_int_def split: if_splits Option.bind_splits)

lemma build_cycle_blocks_True:
  assumes "build_cycle_blocks env bases tip hB r e m = Some (True, r', e', m')"
  shows "\<exists>p1 p2 p3.
           GetAncestor env tip (nHeight hB - dkgInterval env (llmqTypeInstantSend env)) = Some p1
         \<and> GetAncestor env p1 (nHeight hB - 2 * dkgInterval env (llmqTypeInstantSend env)) = Some p2
         \<and> GetAncestor env p1 (nHeight hB - 3 * dkgInterval env (llmqTypeInstantSend env)) = Some p3
         \<and> build_at_HMinusC env bases p1 p2 p3 r e m = (True, r', e', m')"
  using assms unfolding build_cycle_blocks_def Let_def
  by (auto split: option.splits dest!: int_sub_Some int_mul_sub_Some)

lemma build_from_target_True:
  assumes "build_from_target env bases tip b r e m = Some (True, r', e', m')"
  shows "\<exists>hB. dkgInterval env (llmqTypeInstantSend env) \<noteq> 0
         \<and> GetAncestor env b (nHeight b - nHeight b smod dkgInterval env (llmqTypeInstantSend env)) = Some hB
         \<and> build_cycle_blocks env bases tip hB (r\<lparr>creationHeight := nHeight hB\<rparr>) e m = Some (True, r', e', m')"
  using assms unfolding build_from_target_def Let_def
  by (auto split: option.splits dest!: int_rem_sub_Some)

lemma BuildQuorumRotationInfo_True:
  assumes "BuildQuorumRotationInfo env request r e m = Some (True, r', e', m')"
  shows "\<exists>bases tip d e1 b.
           base_block_indexes env request = Inr bases
         \<and> Tip env = Some tip
         \<and> BuildSimplifiedMNListDiff env (GetBlockHash (last bases)) (GetBlockHash tip) (mnListDiffTip r) e = (True, d, e1)
         \<and> LookupBlockIndex env (blockRequestHash request) = Some b
         \<and> build_from_target env bases tip b (r\<lparr>mnListDiffTip := d\<rparr>) e1 m = Some (True, r', e', m')"
  using assms unfolding BuildQuorumRotationInfo_def
  by (auto split: sum.splits option.splits prod.splits if_splits)

lemma build_at_HMinusC_True_all:
  assumes "build_at_HMinusC env bases p1 p2 p3 r e m = (True, r', e', m')"
  shows "diffs_and_snapshots_for env bases p1 p2 p3 r m r' e' m'
       \<and> creationHeight r' = creationHeight r \<and> mnListDiffTip r' = mnListDiffTip r"
proof -
  from build_at_HMinusC_True [OF assms] obtain d1 s1 e1 m1 where
    a1: "BuildSimplifiedMNListDiff env (GetLastBaseBlockHash bases p1) (GetBlockHash p1)
           (mnListDiffAtHMinusC r) e = (True, d1, e1)"
    and g1: "GetSnapshotForBlock (SerializeHash env) (llmqTypeInstantSend env) p1 m = (Some s1, m1)"
    and n1: "build_at_HMinus2C env bases p2 p3
               (r\<lparr>mnListDiffAtHMinusC := d1, quorumSnapshotAtHMinusC := s1\<rparr>) e1 m1 = (True, r', e', m')"
    by blast
  from build_at_HMinus2C_True [OF n1] obtain d2 s2 e2 m2 where
    a2: "BuildSimplifiedMNListDiff env (GetLastBaseBlockHash bases p2) (GetBlockHash p2)
           (mnListDiffAtHMinus2C r) e1 = (True, d2, e2)"
    and g2: "GetSnapshotForBlock (SerializeHash env) (llmqTypeInstantSend env) p2 m1 = (Some s2, m2)"
    and n2: "build_at_HMinus3C env bases p3
               (r\<lparr>mnListDiffAtHMinusC := d1, quorumSnapshotAtHMinusC := s1,
                   mnListDiffAtHMinus2C := d2, quorumSnapshotAtHMinus2C := s2\<rparr>) e2 m2 = (True, r', e', m')"
    by auto
  from build_at_HMinus3C_True [OF n2] obtain d3 s3 where
    a3: "BuildSimplifiedMNListDiff env (GetLastBaseBlockHash bases p3) (GetBlockHash p3)
           (mnListDiffAtHMinus3C r) e2 = (True, d3, e')"
    and g3: "GetSnapshotForBlock (SerializeHash env) (llmqTypeInstantSend env) p3 m2 = (Some s3, m')"
    and r': "r' = r\<lparr>mnListDiffAtHMinusC := d1, quorumSnapshotAtHMinusC := s1,
                     mnListDiffAtHMinus2C := d2, quorumSnapshotAtHMinus2C := s2,
                     mnListDiffAtHMinus3C := d3, quorumSnapshotAtHMinus3C := s3\<rparr>"
    by auto
  have "diffs_and_snapshots_for env bases p1 p2 p3 r m r' e' m'"
    unfolding diffs_and_snapshots_for_def
    using a1 g1 a2 g2 a3 g3 by (simp add: r') blast
  then show ?thesis by (simp add: r')
qed

lemma diffs_and_snapshots_for_cong:
  "diffs_and_snapshots_for env bases p1 p2 p3 (r\<lparr>mnListDiffTip := d, creationHeight := h\<rparr>) m r' e' m'
     = diffs_and_snapshots_for env bases p1 p2 p3 r m r' e' m'"
  by (simp add: diffs_and_snapshots_for_def)

lemma build_success:
  assumes "BuildQuorumRotationInfo env request r e m = Some (True, r', e', m')"
  shows "\<exists>bases tip b hB p1 p2 p3.
           base_block_indexes env request = Inr bases
         \<and> Tip env = Some tip
         \<and> LookupBlockIndex env (blockRequestHash request) = Some b
         \<and> dkgInterval env (llmqTypeInstantSend env) \<noteq> 0
         \<and> GetAncestor env b (nHeight b - nHeight b smod dkgInterval env (llmqTypeInstantSend env)) = Some hB
         \<and> creationHeight r' = nHeight hB
         \<and> GetAncestor env tip (nHeight hB - dkgInterval env (llmqTypeInstantSend env)) = Some p1
         \<and> GetAncestor env p1 (nHeight hB - 2 * dkgInterval env (llmqTypeInstantSend env)) = Some p2
         \<and> GetAncestor env p1 (nHeight hB - 3 * dkgInterval env (llmqTypeInstantSend env)) = Some p3
         \<and> diffs_and_snapshots_for env bases p1 p2 p3 r m r' e' m'"
proof -
  let ?c = "dkgInterval env (llmqTypeInstantSend env)"
  from BuildQuorumRotationInfo_True [OF assms] obtain bases tip d e1 b where
    b: "base_block_indexes env request = Inr bases" and t: "Tip env = Some tip"
    and l: "LookupBlockIndex env (blockRequestHash request) = Some b"
    and n: "build_from_target env bases tip b (r\<lparr>mnListDiffTip := d\<rparr>) e1 m = Some (True, r', e', m')"
    by blast
  from build_from_target_True [OF n] obtain hB where
    c: "?c \<noteq> 0" and h: "GetAncestor env b (nHeight b - nHeight b smod ?c) = Some hB"
    and n2: "build_cycle_blocks env bases tip hB (r\<lparr>mnListDiffTip := d, creationHeight := nHeight hB\<rparr>) e1 m
               = Some (True, r', e', m')"
    by auto
  from build_cycle_blocks_True [OF n2] obtain p1 p2 p3 where
    p: "GetAncestor env tip (nHeight hB - ?c) = Some p1"
       "GetAncestor env p1 (nHeight hB - 2 * ?c) = Some p2"
       "GetAncestor env p1 (nHeight hB - 3 * ?c) = Some p3"
    and n3: "build_at_HMinusC env bases p1 p2 p3 (r\<lparr>mnListDiffTip := d, creationHeight := nHeight hB\<rparr>) e1 m
               = (True, r', e', m')"
    by blast
  from build_at_HMinusC_True_all [OF n3]
  have "diffs_and_snapshots_for env bases p1 p2 p3 r m r' e' m'" "creationHeight r' = nHeight hB"
    by (simp_all add: diffs_and_snapshots_for_cong)
  with b t l c h p
  have "base_block_indexes env request = Inr bases
         \<and> Tip env = Some tip
         \<and> LookupBlockIndex env (blockRequestHash request) = Some b
         \<and> ?c \<noteq> 0
         \<and> GetAncestor env b (nHeight b - nHeight b smod ?c) = Some hB
         \<and> creationHeight r' = nHeight hB
         \<and> GetAncestor env tip (nHeight hB - ?c) = Some p1
         \<and> GetAncestor env p1 (nHeight hB - 2 * ?c) = Some p2
         \<and> GetAncestor env p1 (nHeight hB - 3 * ?c) = Some p3
         \<and> diffs_and_snapshots_for env bases p1 p2 p3 r m r' e' m'"
    by simp
  then show ?thesis by (intro exI)
qed

lemma smod_nonneg: "0 \<le> a \<Longrightarrow> 0 < c \<Longrightarrow> a smod c = a mod (c::int)"
  by (cases "a = 0") (simp_all add: smod_int_alt_def)

lemma dvd_minus_smod: "(c::int) dvd a - a smod c"
  by (simp add: minus_smod_eq_sdiv_mult)


subsection \<open>The example chain, evaluated\<close>

lemma main_block_simps:
  "nHeight (main_block h) = h" "GetBlockHash (main_block h) = of_int h"
  "phashBlock (main_block h) = of_int h"
  by (simp_all add: main_block_def GetBlockHash_def)

lemma fork_block_simps:
  "nHeight fork_block = 100" "GetBlockHash fork_block = 1100"
  by (simp_all add: fork_block_def GetBlockHash_def)

lemma example_request_simps:
  "baseBlockHashesNb (example_request h) = 2"
  "baseBlockHashes (example_request h) = [80, 30]"
  "blockRequestHash (example_request h) = h"
  by (simp_all add: example_request_def)

lemma example_env_simps:
  "Genesis example_env = Some (main_block 0)"
  "Tip example_env = Some (main_block 120)"
  "Contains example_env b \<longleftrightarrow> 0 \<le> nHeight b \<and> nHeight b \<le> 120 \<and> b = main_block (nHeight b)"
  "LookupBlockIndex example_env h =
     (if h = 1100 then Some fork_block else if h \<le> 120 then Some (main_block (uint h)) else None)"
  "GetAncestor example_env b' k =
     (if k < 0 \<or> nHeight b' < k then None else if k = nHeight b' then Some b' else Some (main_block k))"
  "BuildSimplifiedMNListDiff example_env x y d e = (True, (x, y), e)"
  "llmqTypeInstantSend example_env = 1"
  "dkgInterval example_env t = 24"
  "SerializeHash example_env (t, h) = h"
  "ToString example_env h = ''#''"
  by (simp_all add: example_env_def)

lemma bases: "base_block_indexes example_env (example_request h) = Inr [main_block 30, main_block 80]"
  by (simp add: base_block_indexes_def example_env_simps example_request_def main_block_simps)

lemma anc_ok: "\<forall>b h b'. GetAncestor example_env b h = Some b' \<longrightarrow> nHeight b' = h"
  by (auto simp: example_env_simps main_block_simps)


lemma example_gets:
  "GetSnapshotForBlock (SerializeHash example_env) 1 (main_block 72) example_mgr
     = (Some (example_snapshot 1), example_mgr1)"
  "GetSnapshotForBlock (SerializeHash example_env) 1 (main_block 48) example_mgr1
     = (Some (example_snapshot 2), example_mgr2)"
  "GetSnapshotForBlock (SerializeHash example_env) 1 (main_block 24) example_mgr2
     = (Some (example_snapshot 3), example_mgr3)"
  "GetSnapshotForBlock (SerializeHash example_env) 1 (main_block 72) mgr_without_snapshots
     = (None, mgr_without_snapshots)"
  "GetSnapshotForBlock (SerializeHash example_env) 1 (main_block 72) mgr_without_2C
     = (Some (example_snapshot 1), mgr_without_2C)"
  "GetSnapshotForBlock (SerializeHash example_env) 1 (main_block 48) mgr_without_2C
     = (None, mgr_without_2C)"
  by (simp_all add: GetSnapshotForBlock_def example_env_simps main_block_simps
        example_mgr_def example_mgr1_def example_mgr2_def example_mgr3_def example_db_def
        mgr_without_snapshots_def mgr_without_2C_def
        Read_db_def emplace_def DB_QUORUM_SNAPSHOT_def)

lemma example_anchors:
  "GetLastBaseBlockHash [main_block 30, main_block 80] (main_block 72) = 30"
  "GetLastBaseBlockHash [main_block 30, main_block 80] (main_block 48) = 30"
  "GetLastBaseBlockHash [main_block 30, main_block 80] (main_block 24) = 0"
  by (simp_all add: GetLastBaseBlockHash_def main_block_simps)

lemma example_cycle:
  "build_cycle_blocks example_env bs (main_block 120) (main_block 96) r e m =
     Some (build_at_HMinusC example_env bs (main_block 72) (main_block 48) (main_block 24) r e m)"
  by (simp add: build_cycle_blocks_def example_env_simps main_block_simps
        int_sub_def int_mul_def in_int_def INT_MIN_def INT_MAX_def)

lemma example_target:
  "build_from_target example_env bs (main_block 120) (main_block 100) r e m =
     Some (build_at_HMinusC example_env bs (main_block 72) (main_block 48) (main_block 24)
             (r\<lparr>creationHeight := 96\<rparr>) e m)"
  "build_from_target example_env bs (main_block 120) fork_block r e m =
     Some (build_at_HMinusC example_env bs (main_block 72) (main_block 48) (main_block 24)
             (r\<lparr>creationHeight := 96\<rparr>) e m)"
  by (simp_all add: build_from_target_def example_env_simps main_block_simps fork_block_simps
        int_rem_def int_sub_def in_int_def INT_MIN_def INT_MAX_def smod_int_alt_def example_cycle)

lemma example_build:
  "BuildQuorumRotationInfo example_env (example_request 100) r e m =
     Some (build_at_HMinusC example_env [main_block 30, main_block 80]
             (main_block 72) (main_block 48) (main_block 24)
             (r\<lparr>mnListDiffTip := (80, 120), creationHeight := 96\<rparr>) e m)"
  "BuildQuorumRotationInfo example_env (example_request 1100) r e m =
     Some (build_at_HMinusC example_env [main_block 30, main_block 80]
             (main_block 72) (main_block 48) (main_block 24)
             (r\<lparr>mnListDiffTip := (80, 120), creationHeight := 96\<rparr>) e m)"
  by (simp_all add: BuildQuorumRotationInfo_def bases example_env_simps main_block_simps
        example_target) (simp_all add: example_request_def example_target)

lemma run_main:
  "BuildQuorumRotationInfo example_env (example_request 100) empty_response [] example_mgr
     = Some (True, example_response, [], example_mgr3)"
  by (simp add: example_build build_at_HMinusC_def build_at_HMinus2C_def build_at_HMinus3C_def
        example_env_simps example_gets example_anchors main_block_simps
        empty_response_def example_response_def)

lemma run_fork:
  "BuildQuorumRotationInfo example_env (example_request 1100) empty_response [] example_mgr
     = Some (True, example_response, [], example_mgr3)"
  by (simp add: example_build build_at_HMinusC_def build_at_HMinus2C_def build_at_HMinus3C_def
        example_env_simps example_gets example_anchors main_block_simps
        empty_response_def example_response_def)

lemma run_no_snapshots:
  "BuildQuorumRotationInfo example_env (example_request 100) empty_response [] mgr_without_snapshots
     = Some (False, empty_response\<lparr>mnListDiffTip := (80, 120), creationHeight := 96,
                                   mnListDiffAtHMinusC := (30, 72)\<rparr>,
             ''Can not find quorum snapshot at H-C'', mgr_without_snapshots)"
  by (simp add: example_build build_at_HMinusC_def
        example_env_simps example_gets example_anchors main_block_simps)

lemma run_no_2C:
  "BuildQuorumRotationInfo example_env (example_request 100) empty_response [] mgr_without_2C
     = Some (False, empty_response\<lparr>mnListDiffTip := (80, 120), creationHeight := 96,
                                   mnListDiffAtHMinusC := (30, 72),
                                   quorumSnapshotAtHMinusC := example_snapshot 1,
                                   mnListDiffAtHMinus2C := (30, 48)\<rparr>,
             ''Can not find quorum snapshot at H-C'', mgr_without_2C)"
  by (simp add: example_build build_at_HMinusC_def build_at_HMinus2C_def
        example_env_simps example_gets example_anchors main_block_simps)



subsection \<open>Lemmas on the outcome of a call of BuildQuorumRotationInfo\<close>

lemma build_at_HMinus3C_outcome:
  assumes "build_at_HMinus3C env bases p3 r e m = (ok, r', e', m')"
  shows "(\<not> ok \<and> (\<exists>d3. diff_or_snapshot_fails_at env bases p3 (mnListDiffAtHMinus3C r) e m d3 e' m'
                       \<and> r' = r\<lparr>mnListDiffAtHMinus3C := d3\<rparr>))
       \<or> (ok \<and> (\<exists>d3 s3. diff_and_snapshot_at env bases p3 (mnListDiffAtHMinus3C r) e m d3 s3 e' m'
                       \<and> r' = r\<lparr>mnListDiffAtHMinus3C := d3, quorumSnapshotAtHMinus3C := s3\<rparr>))"
proof -
  obtain k d e1 where b: "BuildSimplifiedMNListDiff env (GetLastBaseBlockHash bases p3)
      (GetBlockHash p3) (mnListDiffAtHMinus3C r) e = (k, d, e1)"
    by (rule prod_cases3)
  obtain so m1 where g: "GetSnapshotForBlock (SerializeHash env) (llmqTypeInstantSend env) p3 m
      = (so, m1)"
    by (rule prod.exhaust)
  show ?thesis
  proof (cases k)
    case False
    with assms b have "\<not> ok" "r' = r\<lparr>mnListDiffAtHMinus3C := d\<rparr>" "e' = e1" "m' = m"
      by (simp_all add: build_at_HMinus3C_def)
    with b False show ?thesis
      by (simp add: diff_or_snapshot_fails_at_def)
  next
    case True
    show ?thesis
    proof (cases so)
      case None
      with assms b g True have "\<not> ok" "r' = r\<lparr>mnListDiffAtHMinus3C := d\<rparr>"
        "e' = ''Can not find quorum snapshot at H-C''" "m' = m1"
        by (simp_all add: build_at_HMinus3C_def)
      with b g True None show ?thesis
        by (simp add: diff_or_snapshot_fails_at_def)
    next
      case (Some s)
      with assms b g True have "ok"
        "r' = r\<lparr>mnListDiffAtHMinus3C := d, quorumSnapshotAtHMinus3C := s\<rparr>" "e' = e1" "m' = m1"
        by (simp_all add: build_at_HMinus3C_def)
      with b g True Some show ?thesis
        by (simp add: diff_and_snapshot_at_def)
    qed
  qed
qed

lemma build_at_HMinus2C_step:
  assumes "build_at_HMinus2C env bases p2 p3 r e m = (ok, r', e', m')"
  shows "(\<not> ok \<and> (\<exists>d2. diff_or_snapshot_fails_at env bases p2 (mnListDiffAtHMinus2C r) e m d2 e' m'
                       \<and> r' = r\<lparr>mnListDiffAtHMinus2C := d2\<rparr>))
       \<or> (\<exists>d2 s2 e1 m1. diff_and_snapshot_at env bases p2 (mnListDiffAtHMinus2C r) e m d2 s2 e1 m1
             \<and> build_at_HMinus3C env bases p3
                  (r\<lparr>mnListDiffAtHMinus2C := d2, quorumSnapshotAtHMinus2C := s2\<rparr>) e1 m1
                 = (ok, r', e', m'))"
proof -
  obtain k d e1 where b: "BuildSimplifiedMNListDiff env (GetLastBaseBlockHash bases p2)
      (GetBlockHash p2) (mnListDiffAtHMinus2C r) e = (k, d, e1)"
    by (rule prod_cases3)
  obtain so m1 where g: "GetSnapshotForBlock (SerializeHash env) (llmqTypeInstantSend env) p2 m
      = (so, m1)"
    by (rule prod.exhaust)
  show ?thesis
  proof (cases k)
    case False
    with assms b have "\<not> ok" "r' = r\<lparr>mnListDiffAtHMinus2C := d\<rparr>" "e' = e1" "m' = m"
      by (simp_all add: build_at_HMinus2C_def)
    with b False show ?thesis
      by (simp add: diff_or_snapshot_fails_at_def)
  next
    case True
    show ?thesis
    proof (cases so)
      case None
      with assms b g True have "\<not> ok" "r' = r\<lparr>mnListDiffAtHMinus2C := d\<rparr>"
        "e' = ''Can not find quorum snapshot at H-C''" "m' = m1"
        by (simp_all add: build_at_HMinus2C_def)
      with b g True None show ?thesis
        by (simp add: diff_or_snapshot_fails_at_def)
    next
      case (Some s)
      with assms b g True have "build_at_HMinus3C env bases p3
          (r\<lparr>mnListDiffAtHMinus2C := d, quorumSnapshotAtHMinus2C := s\<rparr>) e1 m1 = (ok, r', e', m')"
        by (simp add: build_at_HMinus2C_def)
      moreover from b g True Some
      have "diff_and_snapshot_at env bases p2 (mnListDiffAtHMinus2C r) e m d s e1 m1"
        by (simp add: diff_and_snapshot_at_def)
      ultimately show ?thesis by blast
    qed
  qed
qed

lemma build_at_HMinusC_step:
  assumes "build_at_HMinusC env bases p1 p2 p3 r e m = (ok, r', e', m')"
  shows "(\<not> ok \<and> (\<exists>d1. diff_or_snapshot_fails_at env bases p1 (mnListDiffAtHMinusC r) e m d1 e' m'
                       \<and> r' = r\<lparr>mnListDiffAtHMinusC := d1\<rparr>))
       \<or> (\<exists>d1 s1 e1 m1. diff_and_snapshot_at env bases p1 (mnListDiffAtHMinusC r) e m d1 s1 e1 m1
             \<and> build_at_HMinus2C env bases p2 p3
                  (r\<lparr>mnListDiffAtHMinusC := d1, quorumSnapshotAtHMinusC := s1\<rparr>) e1 m1
                 = (ok, r', e', m'))"
proof -
  obtain k d e1 where b: "BuildSimplifiedMNListDiff env (GetLastBaseBlockHash bases p1)
      (GetBlockHash p1) (mnListDiffAtHMinusC r) e = (k, d, e1)"
    by (rule prod_cases3)
  obtain so m1 where g: "GetSnapshotForBlock (SerializeHash env) (llmqTypeInstantSend env) p1 m
      = (so, m1)"
    by (rule prod.exhaust)
  show ?thesis
  proof (cases k)
    case False
    with assms b have "\<not> ok" "r' = r\<lparr>mnListDiffAtHMinusC := d\<rparr>" "e' = e1" "m' = m"
      by (simp_all add: build_at_HMinusC_def)
    with b False show ?thesis
      by (simp add: diff_or_snapshot_fails_at_def)
  next
    case True
    show ?thesis
    proof (cases so)
      case None
      with assms b g True have "\<not> ok" "r' = r\<lparr>mnListDiffAtHMinusC := d\<rparr>"
        "e' = ''Can not find quorum snapshot at H-C''" "m' = m1"
        by (simp_all add: build_at_HMinusC_def)
      with b g True None show ?thesis
        by (simp add: diff_or_snapshot_fails_at_def)
    next
      case (Some s)
      with assms b g True have "build_at_HMinus2C env bases p2 p3
          (r\<lparr>mnListDiffAtHMinusC := d, quorumSnapshotAtHMinusC := s\<rparr>) e1 m1 = (ok, r', e', m')"
        by (simp add: build_at_HMinusC_def)
      moreover from b g True Some
      have "diff_and_snapshot_at env bases p1 (mnListDiffAtHMinusC r) e m d s e1 m1"
        by (simp add: diff_and_snapshot_at_def)
      ultimately show ?thesis by blast
    qed
  qed
qed

lemma build_at_HMinusC_outcome:
  assumes "build_at_HMinusC env bases p1 p2 p3 r e m = (ok, r', e', m')"
  shows "outcome_at_blocks env bases p1 p2 p3 r e m ok r' e' m'"
proof -
  from build_at_HMinusC_step [OF assms]
  consider (f1) d1 where "\<not> ok"
      "diff_or_snapshot_fails_at env bases p1 (mnListDiffAtHMinusC r) e m d1 e' m'"
      "r' = r\<lparr>mnListDiffAtHMinusC := d1\<rparr>"
    | (n1) d1 s1 e1 m1 where
      "diff_and_snapshot_at env bases p1 (mnListDiffAtHMinusC r) e m d1 s1 e1 m1"
      "build_at_HMinus2C env bases p2 p3
         (r\<lparr>mnListDiffAtHMinusC := d1, quorumSnapshotAtHMinusC := s1\<rparr>) e1 m1 = (ok, r', e', m')"
    by blast
  then show ?thesis
  proof cases
    case f1
    then have "\<not> ok \<and> (\<exists>d1.
          diff_or_snapshot_fails_at env bases p1 (mnListDiffAtHMinusC r) e m d1 e' m'
        \<and> r' = r\<lparr>mnListDiffAtHMinusC := d1\<rparr>)"
      by (intro conjI exI)
    then show ?thesis unfolding outcome_at_blocks_def by (rule disjI1)
  next
    case n1
    from build_at_HMinus2C_step [OF n1(2)]
    consider (f2) d2 where "\<not> ok"
        "diff_or_snapshot_fails_at env bases p2 (mnListDiffAtHMinus2C r) e1 m1 d2 e' m'"
        "r' = r\<lparr>mnListDiffAtHMinusC := d1, quorumSnapshotAtHMinusC := s1,
                  mnListDiffAtHMinus2C := d2\<rparr>"
      | (n2) d2 s2 e2 m2 where
        "diff_and_snapshot_at env bases p2 (mnListDiffAtHMinus2C r) e1 m1 d2 s2 e2 m2"
        "build_at_HMinus3C env bases p3
           (r\<lparr>mnListDiffAtHMinusC := d1, quorumSnapshotAtHMinusC := s1,
               mnListDiffAtHMinus2C := d2, quorumSnapshotAtHMinus2C := s2\<rparr>) e2 m2 = (ok, r', e', m')"
      by auto
    then show ?thesis
    proof cases
      case f2
      with n1(1) have "\<not> ok \<and> (\<exists>d1 s1 e1 m1 d2.
          diff_and_snapshot_at env bases p1 (mnListDiffAtHMinusC r) e m d1 s1 e1 m1
        \<and> diff_or_snapshot_fails_at env bases p2 (mnListDiffAtHMinus2C r) e1 m1 d2 e' m'
        \<and> r' = r\<lparr>mnListDiffAtHMinusC := d1, quorumSnapshotAtHMinusC := s1,
                   mnListDiffAtHMinus2C := d2\<rparr>)"
        by (intro conjI exI)
      then show ?thesis unfolding outcome_at_blocks_def by - (rule disjI2, rule disjI1)
    next
      case n2
      from build_at_HMinus3C_outcome [OF n2(2)]
      consider (f3) d3 where "\<not> ok"
          "diff_or_snapshot_fails_at env bases p3 (mnListDiffAtHMinus3C r) e2 m2 d3 e' m'"
          "r' = r\<lparr>mnListDiffAtHMinusC := d1, quorumSnapshotAtHMinusC := s1,
                    mnListDiffAtHMinus2C := d2, quorumSnapshotAtHMinus2C := s2,
                    mnListDiffAtHMinus3C := d3\<rparr>"
        | (s3) d3 s3 where "ok"
          "diff_and_snapshot_at env bases p3 (mnListDiffAtHMinus3C r) e2 m2 d3 s3 e' m'"
          "r' = r\<lparr>mnListDiffAtHMinusC := d1, quorumSnapshotAtHMinusC := s1,
                    mnListDiffAtHMinus2C := d2, quorumSnapshotAtHMinus2C := s2,
                    mnListDiffAtHMinus3C := d3, quorumSnapshotAtHMinus3C := s3\<rparr>"
        by auto
      then show ?thesis
      proof cases
        case f3
        with n1(1) n2(1) have "\<not> ok \<and> (\<exists>d1 s1 e1 m1 d2 s2 e2 m2 d3.
          diff_and_snapshot_at env bases p1 (mnListDiffAtHMinusC r) e m d1 s1 e1 m1
        \<and> diff_and_snapshot_at env bases p2 (mnListDiffAtHMinus2C r) e1 m1 d2 s2 e2 m2
        \<and> diff_or_snapshot_fails_at env bases p3 (mnListDiffAtHMinus3C r) e2 m2 d3 e' m'
        \<and> r' = r\<lparr>mnListDiffAtHMinusC := d1, quorumSnapshotAtHMinusC := s1,
                   mnListDiffAtHMinus2C := d2, quorumSnapshotAtHMinus2C := s2,
                   mnListDiffAtHMinus3C := d3\<rparr>)"
          by (intro conjI exI)
        then show ?thesis unfolding outcome_at_blocks_def
          by - (rule disjI2, rule disjI2, rule disjI1)
      next
        case s3
        with n1(1) n2(1) have "ok \<and> (\<exists>d1 s1 e1 m1 d2 s2 e2 m2 d3 s3.
          diff_and_snapshot_at env bases p1 (mnListDiffAtHMinusC r) e m d1 s1 e1 m1
        \<and> diff_and_snapshot_at env bases p2 (mnListDiffAtHMinus2C r) e1 m1 d2 s2 e2 m2
        \<and> diff_and_snapshot_at env bases p3 (mnListDiffAtHMinus3C r) e2 m2 d3 s3 e' m'
        \<and> r' = r\<lparr>mnListDiffAtHMinusC := d1, quorumSnapshotAtHMinusC := s1,
                   mnListDiffAtHMinus2C := d2, quorumSnapshotAtHMinus2C := s2,
                   mnListDiffAtHMinus3C := d3, quorumSnapshotAtHMinus3C := s3\<rparr>)"
          by (intro conjI exI)
        then show ?thesis unfolding outcome_at_blocks_def
          by - (rule disjI2, rule disjI2, rule disjI2)
      qed
    qed
  qed
qed

lemma build_cycle_blocks_outcome:
  assumes "build_cycle_blocks env bases tip hB r e m = Some (ok, r', e', m')"
  shows "outcome_from_H env bases tip hB r e m ok r' e' m'"
proof -
  let ?c = "dkgInterval env (llmqTypeInstantSend env)"
  from assms obtain hC where hC: "int_sub (nHeight hB) ?c = Some hC"
    by (auto simp: build_cycle_blocks_def Let_def split: option.splits)
  then have hC': "hC = nHeight hB - ?c" by (rule int_sub_Some)
  show ?thesis
  proof (cases "GetAncestor env tip (nHeight hB - ?c)")
    case None
    with assms hC hC' have "\<not> ok" "r' = r" "e' = ''Can not find block H-C''" "m' = m"
      by (simp_all add: build_cycle_blocks_def)
    with None show ?thesis by (simp add: outcome_from_H_def)
  next
    case (Some p1)
    note p1 = Some
    from assms hC hC' p1 obtain h2 where h2: "Option.bind (int_mul 2 ?c) (int_sub (nHeight hB)) = Some h2"
      by (auto simp: build_cycle_blocks_def Let_def split: option.splits)
    then have h2': "h2 = nHeight hB - 2 * ?c" by (rule int_mul_sub_Some)
    show ?thesis
    proof (cases "GetAncestor env p1 (nHeight hB - 2 * ?c)")
      case None
      with assms hC hC' p1 h2 h2' have "\<not> ok" "r' = r" "e' = ''Can not find block H-2C''" "m' = m"
        by (simp_all add: build_cycle_blocks_def)
      with None p1 show ?thesis by (simp add: outcome_from_H_def)
    next
      case (Some p2)
      note p2 = Some
      from assms hC hC' p1 h2 h2' p2 obtain h3 where
        h3: "Option.bind (int_mul 3 ?c) (int_sub (nHeight hB)) = Some h3"
        by (auto simp: build_cycle_blocks_def Let_def split: option.splits)
      then have h3': "h3 = nHeight hB - 3 * ?c" by (rule int_mul_sub_Some)
      show ?thesis
      proof (cases "GetAncestor env p1 (nHeight hB - 3 * ?c)")
        case None
        with assms hC hC' p1 h2 h2' p2 h3 h3'
        have "\<not> ok" "r' = r" "e' = ''Can not find block H-3C''" "m' = m"
          by (simp_all add: build_cycle_blocks_def)
        with None p1 p2 show ?thesis by (simp add: outcome_from_H_def)
      next
        case (Some p3)
        with assms hC hC' p1 h2 h2' p2 h3 h3'
        have "build_at_HMinusC env bases p1 p2 p3 r e m = (ok, r', e', m')"
          by (simp add: build_cycle_blocks_def)
        then have "outcome_at_blocks env bases p1 p2 p3 r e m ok r' e' m'"
          by (rule build_at_HMinusC_outcome)
        with Some p1 p2 show ?thesis by (simp add: outcome_from_H_def)
      qed
    qed
  qed
qed

lemma build_from_target_outcome:
  assumes "build_from_target env bases tip b r e m = Some (ok, r', e', m')"
  shows "outcome_from_target env bases tip b r e m ok r' e' m'"
proof -
  let ?c = "dkgInterval env (llmqTypeInstantSend env)"
  from assms obtain hH where hH: "Option.bind (int_rem (nHeight b) ?c) (int_sub (nHeight b)) = Some hH"
    by (auto simp: build_from_target_def Let_def split: option.splits)
  then have hH': "hH = nHeight b - nHeight b smod ?c" by (auto dest: int_rem_sub_Some)
  show ?thesis
  proof (cases "GetAncestor env b (nHeight b - nHeight b smod ?c)")
    case None
    with assms hH hH' have "\<not> ok" "r' = r" "e' = ''Can not find block H''" "m' = m"
      by (simp_all add: build_from_target_def)
    with None show ?thesis by (simp add: outcome_from_target_def)
  next
    case (Some hB)
    with assms hH hH'
    have "build_cycle_blocks env bases tip hB (r\<lparr>creationHeight := nHeight hB\<rparr>) e m
            = Some (ok, r', e', m')"
      by (simp add: build_from_target_def)
    then have "outcome_from_H env bases tip hB (r\<lparr>creationHeight := nHeight hB\<rparr>) e m ok r' e' m'"
      by (rule build_cycle_blocks_outcome)
    with Some show ?thesis by (simp add: outcome_from_target_def)
  qed
qed

lemma lookup_base_blocks_first_bad:
  "lookup_base_blocks env hs acc = Inl err \<Longrightarrow> first_bad_base_hash env hs err"
proof (induction hs arbitrary: acc)
  case Nil
  then show ?case by simp
next
  case (Cons h hs)
  show ?case
  proof (cases "LookupBlockIndex env h")
    case None
    with Cons.prems have "err = ''block '' @ ToString env h @ '' not found''" by simp
    with None have "h # hs = [] @ h # hs \<and> list_all (\<lambda>x. case LookupBlockIndex env x of None \<Rightarrow> False | Some bb \<Rightarrow> Contains env bb) []
        \<and> (case LookupBlockIndex env h of
              None \<Rightarrow> err = ''block '' @ ToString env h @ '' not found''
            | Some bb \<Rightarrow> \<not> Contains env bb
                \<and> err = ''block '' @ ToString env h @ '' is not in the active chain'')"
      by simp
    then show ?thesis unfolding first_bad_base_hash_def by (intro exI)
  next
    case (Some bb)
    show ?thesis
    proof (cases "Contains env bb")
      case False
      with Some Cons.prems have "err = ''block '' @ ToString env h @ '' is not in the active chain''"
        by simp
      with Some False have "h # hs = [] @ h # hs \<and> list_all (\<lambda>x. case LookupBlockIndex env x of None \<Rightarrow> False | Some bb \<Rightarrow> Contains env bb) []
        \<and> (case LookupBlockIndex env h of
              None \<Rightarrow> err = ''block '' @ ToString env h @ '' not found''
            | Some bb \<Rightarrow> \<not> Contains env bb
                \<and> err = ''block '' @ ToString env h @ '' is not in the active chain'')"
        by simp
      then show ?thesis unfolding first_bad_base_hash_def by (intro exI)
    next
      case True
      with Some Cons.prems have "lookup_base_blocks env hs (acc @ [bb]) = Inl err" by simp
      from Cons.IH [OF this] obtain pre h' post where
        p: "hs = pre @ h' # post"
           "list_all (\<lambda>x. case LookupBlockIndex env x of None \<Rightarrow> False | Some bb \<Rightarrow> Contains env bb) pre"
           "case LookupBlockIndex env h' of
              None \<Rightarrow> err = ''block '' @ ToString env h' @ '' not found''
            | Some bb \<Rightarrow> \<not> Contains env bb
                \<and> err = ''block '' @ ToString env h' @ '' is not in the active chain''"
        unfolding first_bad_base_hash_def by blast
      from p Some True have "h # hs = (h # pre) @ h' # post
        \<and> list_all (\<lambda>x. case LookupBlockIndex env x of None \<Rightarrow> False | Some bb \<Rightarrow> Contains env bb) (h # pre)
        \<and> (case LookupBlockIndex env h' of
              None \<Rightarrow> err = ''block '' @ ToString env h' @ '' not found''
            | Some bb \<Rightarrow> \<not> Contains env bb
                \<and> err = ''block '' @ ToString env h' @ '' is not in the active chain'')"
        by simp
      then show ?thesis unfolding first_bad_base_hash_def by (intro exI)
    qed
  qed
qed

lemma base_block_indexes_Inl_first:
  assumes "base_block_indexes env request = Inl err"
  shows "(baseBlockHashesNb request = 0 \<and> Genesis env = None \<and> err = ''genesis block not found'')
       \<or> (baseBlockHashesNb request \<noteq> 0 \<and> first_bad_base_hash env (baseBlockHashes request) err)"
proof (cases "baseBlockHashesNb request = 0")
  case True
  with assms show ?thesis
    by (auto simp: base_block_indexes_def split: option.splits)
next
  case False
  with assms have "lookup_base_blocks env (baseBlockHashes request) [] = Inl err"
    by (auto simp: base_block_indexes_def split: sum.splits)
  from lookup_base_blocks_first_bad [OF this] False show ?thesis by simp
qed

subsection \<open>Lemmas on the base blocks, the block H and creationHeight\<close>

lemma lookup_base_blocks_Inl:
  "lookup_base_blocks env hs acc = Inl err \<Longrightarrow>
     \<exists>h \<in> set hs.
       (LookupBlockIndex env h = None \<and> err = ''block '' @ ToString env h @ '' not found'')
     \<or> (\<exists>bb. LookupBlockIndex env h = Some bb \<and> \<not> Contains env bb
            \<and> err = ''block '' @ ToString env h @ '' is not in the active chain'')"
proof (induction hs arbitrary: acc)
  case Nil
  then show ?case by simp
next
  case (Cons h hs)
  show ?case
  proof (cases "LookupBlockIndex env h")
    case None
    with Cons.prems show ?thesis by auto
  next
    case (Some bb)
    show ?thesis
    proof (cases "Contains env bb")
      case False
      with Some Cons.prems show ?thesis by auto
    next
      case True
      with Some Cons.prems have "lookup_base_blocks env hs (acc @ [bb]) = Inl err" by simp
      from Cons.IH [OF this] show ?thesis by auto
    qed
  qed
qed

lemma base_block_indexes_Inl:
  assumes "base_block_indexes env request = Inl err"
  shows "(baseBlockHashesNb request = 0 \<and> Genesis env = None \<and> err = ''genesis block not found'')
       \<or> (\<exists>h \<in> set (baseBlockHashes request).
             (LookupBlockIndex env h = None \<and> err = ''block '' @ ToString env h @ '' not found'')
           \<or> (\<exists>bb. LookupBlockIndex env h = Some bb \<and> \<not> Contains env bb
                  \<and> err = ''block '' @ ToString env h @ '' is not in the active chain''))"
proof (cases "baseBlockHashesNb request = 0")
  case True
  with assms show ?thesis
    by (auto simp: base_block_indexes_def split: option.splits)
next
  case False
  with assms have "lookup_base_blocks env (baseBlockHashes request) [] = Inl err"
    by (auto simp: base_block_indexes_def split: sum.splits)
  from lookup_base_blocks_Inl [OF this] show ?thesis by blast
qed

lemma smod_between:
  fixes h c :: int
  shows "0 \<le> h \<Longrightarrow> 0 \<le> h - h smod c \<and> h - h smod c \<le> h"
    and "h < 0 \<Longrightarrow> h \<le> h - h smod c \<and> h - h smod c \<le> 0"
proof -
  have m: "0 \<le> \<bar>h\<bar> mod \<bar>c\<bar>" "\<bar>h\<bar> mod \<bar>c\<bar> \<le> \<bar>h\<bar>"
    by (cases "c = 0"; simp add: zmod_le_nonneg_dividend)+
  show "0 \<le> h \<Longrightarrow> 0 \<le> h - h smod c \<and> h - h smod c \<le> h"
    using m by (cases "h = 0") (simp_all add: smod_int_alt_def)
  show "h < 0 \<Longrightarrow> h \<le> h - h smod c \<and> h - h smod c \<le> 0"
    using m by (simp add: smod_int_alt_def)
qed

lemma rem_sub_defined:
  assumes "c \<noteq> 0" "INT_MIN \<le> h" "h \<le> INT_MAX" "\<not> (h = INT_MIN \<and> c = - 1)"
  shows "Option.bind (int_rem h c) (int_sub h) = Some (h - h smod c)"
proof -
  have "INT_MIN \<le> h - h smod c \<and> h - h smod c \<le> INT_MAX"
  proof (cases "0 \<le> h")
    case True
    from smod_between(1) [OF True, of c] assms show ?thesis
      by (simp add: INT_MIN_def)
  next
    case False
    then have "h < 0" by simp
    from smod_between(2) [OF this, of c] assms show ?thesis
      by (simp add: INT_MAX_def)
  qed
  with assms show ?thesis
    by (simp add: int_rem_def int_sub_def in_int_def)
qed

lemma build_at_HMinus3C_creationHeight:
  "creationHeight (fst (snd (build_at_HMinus3C env bs p3 r e m))) = creationHeight r"
  by (simp add: build_at_HMinus3C_def split: prod.splits option.splits)

lemma build_at_HMinus2C_creationHeight:
  "creationHeight (fst (snd (build_at_HMinus2C env bs p2 p3 r e m))) = creationHeight r"
  by (simp add: build_at_HMinus2C_def build_at_HMinus3C_creationHeight
        split: prod.splits option.splits)

lemma build_at_HMinusC_creationHeight:
  "creationHeight (fst (snd (build_at_HMinusC env bs p1 p2 p3 r e m))) = creationHeight r"
  by (simp add: build_at_HMinusC_def build_at_HMinus2C_creationHeight
        split: prod.splits option.splits)

lemma build_cycle_blocks_creationHeight:
  "build_cycle_blocks env bs tip hB r e m = Some res \<Longrightarrow>
     creationHeight (fst (snd res)) = creationHeight r"
  unfolding build_cycle_blocks_def Let_def
  by (auto simp: build_at_HMinusC_creationHeight split: option.splits)


subsection \<open>Lemmas on the active chain check\<close>

lemma lookup_base_blocks_Contains:
  "\<forall>h \<in> set hs. \<forall>bb. LookupBlockIndex env h = Some bb \<longrightarrow> f bb = Contains env bb \<Longrightarrow>
     lookup_base_blocks (env\<lparr>Contains := f\<rparr>) hs acc = lookup_base_blocks env hs acc"
  by (induction hs arbitrary: acc) (auto split: option.splits)

lemma base_block_indexes_Contains:
  "\<forall>h \<in> set (baseBlockHashes request). \<forall>bb. LookupBlockIndex env h = Some bb \<longrightarrow> f bb = Contains env bb \<Longrightarrow>
     base_block_indexes (env\<lparr>Contains := f\<rparr>) request = base_block_indexes env request"
  by (simp add: base_block_indexes_def lookup_base_blocks_Contains)

lemma build_at_HMinus3C_Contains:
  "build_at_HMinus3C (env\<lparr>Contains := f\<rparr>) bases p3 r e m = build_at_HMinus3C env bases p3 r e m"
  by (simp add: build_at_HMinus3C_def cong: prod.case_cong if_cong)

lemma build_at_HMinus2C_Contains:
  "build_at_HMinus2C (env\<lparr>Contains := f\<rparr>) bases p2 p3 r e m
     = build_at_HMinus2C env bases p2 p3 r e m"
  by (simp add: build_at_HMinus2C_def build_at_HMinus3C_Contains
        cong: prod.case_cong option.case_cong if_cong)

lemma build_at_HMinusC_Contains:
  "build_at_HMinusC (env\<lparr>Contains := f\<rparr>) bases p1 p2 p3 r e m
     = build_at_HMinusC env bases p1 p2 p3 r e m"
  by (simp add: build_at_HMinusC_def build_at_HMinus2C_Contains
        cong: prod.case_cong option.case_cong if_cong)

lemma build_cycle_blocks_Contains:
  "build_cycle_blocks (env\<lparr>Contains := f\<rparr>) bases tip hB r e m
     = build_cycle_blocks env bases tip hB r e m"
  by (simp add: build_cycle_blocks_def build_at_HMinusC_Contains cong: option.case_cong)

lemma build_from_target_Contains:
  "build_from_target (env\<lparr>Contains := f\<rparr>) bases tip b r e m = build_from_target env bases tip b r e m"
  by (simp add: build_from_target_def build_cycle_blocks_Contains cong: option.case_cong)

lemma BuildQuorumRotationInfo_Contains:
  assumes "\<forall>h \<in> set (baseBlockHashes request). \<forall>bb. LookupBlockIndex env h = Some bb \<longrightarrow> f bb = Contains env bb"
  shows "BuildQuorumRotationInfo (env\<lparr>Contains := f\<rparr>) request r e m
           = BuildQuorumRotationInfo env request r e m"
  by (simp add: BuildQuorumRotationInfo_def base_block_indexes_Contains [OF assms]
        build_from_target_Contains
        cong: sum.case_cong option.case_cong prod.case_cong if_cong)

subsection \<open>Lemmas on the snapshot manager\<close>

lemma emplace_lookup:
  "emplace c k v k = Some (case c k of None \<Rightarrow> v | Some old \<Rightarrow> old)"
  by (simp add: emplace_def split: option.splits)

lemma StoreSnapshotForBlock_cache:
  "quorumSnapshotCache (StoreSnapshotForBlock H t p s m) (H (t, GetBlockHash p))
     = Some (case quorumSnapshotCache m (H (t, GetBlockHash p)) of None \<Rightarrow> s | Some old \<Rightarrow> old)"
  by (simp add: StoreSnapshotForBlock_def Let_def emplace_lookup)

lemma StoreSnapshotForBlock_evoDb:
  "Read_db (evoDb (StoreSnapshotForBlock H t p s m)) (DB_QUORUM_SNAPSHOT, H (t, GetBlockHash p)) = Some s"
  by (simp add: StoreSnapshotForBlock_def Let_def Read_db_def Write_db_def)

lemma Store_then_Get:
  "fst (GetSnapshotForBlock H t p (StoreSnapshotForBlock H t p s m))
     = Some (case quorumSnapshotCache m (H (t, GetBlockHash p)) of None \<Rightarrow> s | Some old \<Rightarrow> old)"
  by (simp add: GetSnapshotForBlock_def Let_def StoreSnapshotForBlock_cache)

lemma Store_then_Get_cold:
  "quorumSnapshotCache m (H (t, GetBlockHash p)) = None \<Longrightarrow>
     fst (GetSnapshotForBlock H t p (StoreSnapshotForBlock H t p s m)) = Some s"
  by (simp add: Store_then_Get)


subsection \<open>The cycle start\<close>

text \<open>
  C1. When \<^verbatim>\<open>BuildQuorumRotationInfo\<close> returns true, and \<^verbatim>\<open>GetAncestor\<close> returns only
  blocks of the height it is asked for, then \<^verbatim>\<open>creationHeight\<close> is the height of the
  target block (the block of \<^verbatim>\<open>blockRequestHash\<close>) minus its remainder by the cycle
  length, and the cycle length divides it. The remainder is that of C++ (\<open>smod\<close>); for a
  height that is not negative and a positive cycle length it is \<open>mod\<close>.
\<close>

theorem creationHeight_is_cycle_start:
  assumes ok: "BuildQuorumRotationInfo env request r e m = Some (True, r', e', m')"
    and anc: "\<forall>b h b'. GetAncestor env b h = Some b' \<longrightarrow> nHeight b' = h"
  shows "\<exists>target. LookupBlockIndex env (blockRequestHash request) = Some target
         \<and> creationHeight r'
             = nHeight target - nHeight target smod dkgInterval env (llmqTypeInstantSend env)
         \<and> dkgInterval env (llmqTypeInstantSend env) dvd creationHeight r'
         \<and> (0 \<le> nHeight target \<and> 0 < dkgInterval env (llmqTypeInstantSend env) \<longrightarrow>
              creationHeight r'
                = nHeight target - nHeight target mod dkgInterval env (llmqTypeInstantSend env)
              \<and> creationHeight r' mod dkgInterval env (llmqTypeInstantSend env) = 0)"
proof -
  let ?c = "dkgInterval env (llmqTypeInstantSend env)"
  from build_success [OF ok] obtain b hB where
    l: "LookupBlockIndex env (blockRequestHash request) = Some b"
    and h: "GetAncestor env b (nHeight b - nHeight b smod ?c) = Some hB"
    and ch: "creationHeight r' = nHeight hB"
    by (elim exE conjE)
  from anc h have "nHeight hB = nHeight b - nHeight b smod ?c" by blast
  with ch have eq: "creationHeight r' = nHeight b - nHeight b smod ?c" by simp
  have d: "?c dvd creationHeight r'" unfolding eq by (rule dvd_minus_smod)
  have "0 \<le> nHeight b \<and> 0 < ?c \<longrightarrow>
          creationHeight r' = nHeight b - nHeight b mod ?c \<and> creationHeight r' mod ?c = 0"
    using eq d by (auto simp: smod_nonneg)
  with l eq d show ?thesis by (intro exI [of _ b]) simp
qed

theorem creationHeight_is_cycle_start_witness:
  "BuildQuorumRotationInfo example_env (example_request 100) empty_response [] example_mgr
     = Some (True, example_response, [], example_mgr3)
   \<and> LookupBlockIndex example_env (blockRequestHash (example_request 100)) = Some (main_block 100)
   \<and> creationHeight example_response = 100 - 100 mod 24
   \<and> creationHeight example_response mod 24 = 0"
proof -
  have l: "LookupBlockIndex example_env (blockRequestHash (example_request 100)) = Some (main_block 100)"
    by (simp add: example_env_simps example_request_def)
  from creationHeight_is_cycle_start [OF run_main anc_ok] l
  have "creationHeight example_response = 100 - 100 mod 24
      \<and> creationHeight example_response mod 24 = 0"
    by (simp add: example_env_simps main_block_simps)
  with run_main l show ?thesis by (intro conjI) simp_all
qed

subsection \<open>The blocks H-C, H-2C and H-3C\<close>

text \<open>
  C2. When \<^verbatim>\<open>BuildQuorumRotationInfo\<close> returns true, and \<^verbatim>\<open>GetAncestor\<close> returns only
  blocks of the height it is asked for, then the three blocks whose diffs and snapshots
  the response holds are of the heights \<^verbatim>\<open>creationHeight\<close> minus one, two and three
  cycle lengths.
\<close>

theorem snapshot_blocks_heights:
  assumes ok: "BuildQuorumRotationInfo env request r e m = Some (True, r', e', m')"
    and anc: "\<forall>b h b'. GetAncestor env b h = Some b' \<longrightarrow> nHeight b' = h"
  shows "\<exists>bases p1 p2 p3.
           base_block_indexes env request = Inr bases
         \<and> nHeight p1 = creationHeight r' - dkgInterval env (llmqTypeInstantSend env)
         \<and> nHeight p2 = creationHeight r' - 2 * dkgInterval env (llmqTypeInstantSend env)
         \<and> nHeight p3 = creationHeight r' - 3 * dkgInterval env (llmqTypeInstantSend env)
         \<and> diffs_and_snapshots_for env bases p1 p2 p3 r m r' e' m'"
proof -
  let ?c = "dkgInterval env (llmqTypeInstantSend env)"
  from build_success [OF ok] obtain bases tip and hB :: CBlockIndex and p1 p2 p3 where
    b: "base_block_indexes env request = Inr bases"
    and ch: "creationHeight r' = nHeight hB"
    and p: "GetAncestor env tip (nHeight hB - ?c) = Some p1"
           "GetAncestor env p1 (nHeight hB - 2 * ?c) = Some p2"
           "GetAncestor env p1 (nHeight hB - 3 * ?c) = Some p3"
    and d: "diffs_and_snapshots_for env bases p1 p2 p3 r m r' e' m'"
    by (elim exE conjE)
  from anc p have "nHeight p1 = nHeight hB - ?c" "nHeight p2 = nHeight hB - 2 * ?c"
    "nHeight p3 = nHeight hB - 3 * ?c"
    by blast+
  with b d ch have "base_block_indexes env request = Inr bases
         \<and> nHeight p1 = creationHeight r' - ?c
         \<and> nHeight p2 = creationHeight r' - 2 * ?c
         \<and> nHeight p3 = creationHeight r' - 3 * ?c
         \<and> diffs_and_snapshots_for env bases p1 p2 p3 r m r' e' m'"
    by simp
  then show ?thesis by (intro exI)
qed

theorem snapshot_blocks_heights_witness:
  "BuildQuorumRotationInfo example_env (example_request 100) empty_response [] example_mgr
     = Some (True, example_response, [], example_mgr3)
   \<and> (\<exists>bases p1 p2 p3.
           base_block_indexes example_env (example_request 100) = Inr bases
         \<and> nHeight p1 = 96 - 24 \<and> nHeight p2 = 96 - 2 * 24 \<and> nHeight p3 = 96 - 3 * 24
         \<and> diffs_and_snapshots_for example_env bases p1 p2 p3
              empty_response example_mgr example_response [] example_mgr3)"
proof -
  have c: "creationHeight example_response = 96" by (simp add: example_response_def)
  from snapshot_blocks_heights [OF run_main anc_ok]
  have "\<exists>bases p1 p2 p3.
           base_block_indexes example_env (example_request 100) = Inr bases
         \<and> nHeight p1 = 96 - 24 \<and> nHeight p2 = 96 - 2 * 24 \<and> nHeight p3 = 96 - 3 * 24
         \<and> diffs_and_snapshots_for example_env bases p1 p2 p3
              empty_response example_mgr example_response [] example_mgr3"
    by (simp only: example_env_simps c)
  with run_main show ?thesis by (intro conjI)
qed


text \<open>
  C3. When \<^verbatim>\<open>BuildQuorumRotationInfo\<close> returns true, the block H-C whose diff and
  snapshot the response holds is the ancestor of the chain tip at \<^verbatim>\<open>creationHeight\<close> minus
  the cycle length, and the blocks H-2C and H-3C are the ancestors of that block H-C (not
  of H, nor of the tip) at \<^verbatim>\<open>creationHeight\<close> minus two and three cycle lengths.
\<close>

theorem traversal_from_tip_then_from_HMinusC:
  assumes ok: "BuildQuorumRotationInfo env request r e m = Some (True, r', e', m')"
  shows "\<exists>bases tip p1 p2 p3.
           base_block_indexes env request = Inr bases
         \<and> Tip env = Some tip
         \<and> GetAncestor env tip (creationHeight r' - dkgInterval env (llmqTypeInstantSend env)) = Some p1
         \<and> GetAncestor env p1 (creationHeight r' - 2 * dkgInterval env (llmqTypeInstantSend env)) = Some p2
         \<and> GetAncestor env p1 (creationHeight r' - 3 * dkgInterval env (llmqTypeInstantSend env)) = Some p3
         \<and> diffs_and_snapshots_for env bases p1 p2 p3 r m r' e' m'"
proof -
  let ?c = "dkgInterval env (llmqTypeInstantSend env)"
  from build_success [OF ok] obtain bases tip and hB :: CBlockIndex and p1 p2 p3 where
    b: "base_block_indexes env request = Inr bases"
    and t: "Tip env = Some tip"
    and ch: "creationHeight r' = nHeight hB"
    and p: "GetAncestor env tip (nHeight hB - ?c) = Some p1"
           "GetAncestor env p1 (nHeight hB - 2 * ?c) = Some p2"
           "GetAncestor env p1 (nHeight hB - 3 * ?c) = Some p3"
    and d: "diffs_and_snapshots_for env bases p1 p2 p3 r m r' e' m'"
    by (elim exE conjE)
  from b t p d ch have "base_block_indexes env request = Inr bases
         \<and> Tip env = Some tip
         \<and> GetAncestor env tip (creationHeight r' - ?c) = Some p1
         \<and> GetAncestor env p1 (creationHeight r' - 2 * ?c) = Some p2
         \<and> GetAncestor env p1 (creationHeight r' - 3 * ?c) = Some p3
         \<and> diffs_and_snapshots_for env bases p1 p2 p3 r m r' e' m'"
    by simp
  then show ?thesis by (intro exI)
qed

theorem traversal_from_tip_then_from_HMinusC_witness:
  "BuildQuorumRotationInfo example_env (example_request 1100) empty_response [] example_mgr
     = Some (True, example_response, [], example_mgr3)
   \<and> (\<exists>bases tip p1 p2 p3.
           base_block_indexes example_env (example_request 1100) = Inr bases
         \<and> Tip example_env = Some tip
         \<and> GetAncestor example_env tip (96 - 24) = Some p1
         \<and> GetAncestor example_env p1 (96 - 2 * 24) = Some p2
         \<and> GetAncestor example_env p1 (96 - 3 * 24) = Some p3
         \<and> diffs_and_snapshots_for example_env bases p1 p2 p3
              empty_response example_mgr example_response [] example_mgr3)"
proof -
  have c: "creationHeight example_response = 96" by (simp add: example_response_def)
  have i: "dkgInterval example_env (llmqTypeInstantSend example_env) = 24"
    by (simp add: example_env_simps)
  from traversal_from_tip_then_from_HMinusC [OF run_fork]
  have "\<exists>bases tip p1 p2 p3.
           base_block_indexes example_env (example_request 1100) = Inr bases
         \<and> Tip example_env = Some tip
         \<and> GetAncestor example_env tip (96 - 24) = Some p1
         \<and> GetAncestor example_env p1 (96 - 2 * 24) = Some p2
         \<and> GetAncestor example_env p1 (96 - 3 * 24) = Some p3
         \<and> diffs_and_snapshots_for example_env bases p1 p2 p3
              empty_response example_mgr example_response [] example_mgr3"
    by (simp only: i c)
  with run_fork show ?thesis by (intro conjI)
qed

subsection \<open>The anchor of a diff\<close>

text \<open>
  C4. For a base list sorted ascending by height and a block \<open>b\<close>: when some base block
  has a height of at most that of \<open>b\<close>, \<^verbatim>\<open>GetLastBaseBlockHash\<close> returns the hash of an
  anchor, a base block of the greatest height among those; when none has, it returns the
  zero hash; and the anchor selected for a block at least as high as \<open>b\<close> is at least as
  high as the one selected for \<open>b\<close>.
\<close>

theorem GetLastBaseBlockHash_anchor:
  assumes "sorted_by_height bs"
  shows "((\<exists>x\<in>set bs. nHeight x \<le> nHeight b) \<longrightarrow>
            (\<exists>x. is_anchor bs b x \<and> GetLastBaseBlockHash bs b = GetBlockHash x))
       \<and> ((\<forall>x\<in>set bs. nHeight b < nHeight x) \<longrightarrow> GetLastBaseBlockHash bs b = 0)
       \<and> (\<forall>b'. nHeight b \<le> nHeight b' \<and> (\<exists>x\<in>set bs. nHeight x \<le> nHeight b) \<longrightarrow>
            (\<exists>x x'. is_anchor bs b x \<and> GetLastBaseBlockHash bs b = GetBlockHash x
                  \<and> is_anchor bs b' x' \<and> GetLastBaseBlockHash bs b' = GetBlockHash x'
                  \<and> nHeight x \<le> nHeight x'))"
proof (intro conjI impI allI)
  assume "\<exists>x\<in>set bs. nHeight x \<le> nHeight b"
  with anchor_selected [OF assms] show "\<exists>x. is_anchor bs b x \<and> GetLastBaseBlockHash bs b = GetBlockHash x"
    by blast
next
  assume "\<forall>x\<in>set bs. nHeight b < nHeight x"
  then show "GetLastBaseBlockHash bs b = 0" by (rule no_anchor_zero)
next
  fix b' :: CBlockIndex
  assume h: "nHeight b \<le> nHeight b' \<and> (\<exists>x\<in>set bs. nHeight x \<le> nHeight b)"
  then have q: "\<exists>x\<in>set bs. nHeight x \<le> nHeight b" by simp
  then obtain z where "z \<in> set bs" "nHeight z \<le> nHeight b" by blast
  with h have "z \<in> set bs \<and> nHeight z \<le> nHeight b'" by simp
  then have q': "\<exists>x\<in>set bs. nHeight x \<le> nHeight b'" by blast
  let ?x = "last (filter (\<lambda>x. nHeight x \<le> nHeight b) bs)"
  let ?x' = "last (filter (\<lambda>x. nHeight x \<le> nHeight b') bs)"
  have a: "is_anchor bs b ?x" "GetLastBaseBlockHash bs b = GetBlockHash ?x"
    using anchor_selected [OF assms q] by simp_all
  have a': "is_anchor bs b' ?x'" "GetLastBaseBlockHash bs b' = GetBlockHash ?x'"
    using anchor_selected [OF assms q'] by simp_all
  have "nHeight ?x \<le> nHeight ?x'"
    using a(1) a'(1) h unfolding is_anchor_def by force
  with a a' show "\<exists>x x'. is_anchor bs b x \<and> GetLastBaseBlockHash bs b = GetBlockHash x
                  \<and> is_anchor bs b' x' \<and> GetLastBaseBlockHash bs b' = GetBlockHash x'
                  \<and> nHeight x \<le> nHeight x'" by blast
qed


theorem GetLastBaseBlockHash_anchor_witness:
  "sorted_by_height [main_block 30, main_block 80]
   \<and> (\<exists>x\<in>set [main_block 30, main_block 80]. nHeight x \<le> nHeight (main_block 48))
   \<and> nHeight (main_block 48) \<le> nHeight (main_block 96)
   \<and> (\<exists>x x'. is_anchor [main_block 30, main_block 80] (main_block 48) x
         \<and> GetLastBaseBlockHash [main_block 30, main_block 80] (main_block 48) = GetBlockHash x
         \<and> is_anchor [main_block 30, main_block 80] (main_block 96) x'
         \<and> GetLastBaseBlockHash [main_block 30, main_block 80] (main_block 96) = GetBlockHash x'
         \<and> nHeight x \<le> nHeight x')
   \<and> GetLastBaseBlockHash [main_block 30, main_block 80] (main_block 24) = 0"
proof -
  have s: "sorted_by_height [main_block 30, main_block 80]"
    by (simp add: sorted_by_height_def main_block_simps)
  have q: "\<exists>x\<in>set [main_block 30, main_block 80]. nHeight x \<le> nHeight (main_block 48)"
    by (simp add: main_block_simps)
  have le: "nHeight (main_block 48) \<le> nHeight (main_block 96)"
    by (simp add: main_block_simps)
  have n: "\<forall>x\<in>set [main_block 30, main_block 80]. nHeight (main_block 24) < nHeight x"
    by (simp add: main_block_simps)
  have a: "\<exists>x x'. is_anchor [main_block 30, main_block 80] (main_block 48) x
         \<and> GetLastBaseBlockHash [main_block 30, main_block 80] (main_block 48) = GetBlockHash x
         \<and> is_anchor [main_block 30, main_block 80] (main_block 96) x'
         \<and> GetLastBaseBlockHash [main_block 30, main_block 80] (main_block 96) = GetBlockHash x'
         \<and> nHeight x \<le> nHeight x'"
    using GetLastBaseBlockHash_anchor [OF s, of "main_block 48"] q le by blast
  have z: "GetLastBaseBlockHash [main_block 30, main_block 80] (main_block 24) = 0"
    using GetLastBaseBlockHash_anchor [OF s, of "main_block 24"] n by blast
  from s q le a z show ?thesis by (intro conjI)
qed

subsection \<open>A failed call\<close>

text \<open>
  C5, as the code has it. When \<^verbatim>\<open>BuildQuorumRotationInfo\<close> returns false, it has failed
  at exactly one step, all steps before it have passed and no step after it is made. The
  error text is the one of that step (for the diff builder, the text it left; for a base
  hash, the text of the first hash of the list that is not found or not on the active
  chain). The manager is as the snapshot reads made so far left it. The reference
  parameter \<^verbatim>\<open>response\<close> is the object of the caller with the assignments made before the
  failure and nothing else changed, in the order of the code: \<^verbatim>\<open>mnListDiffTip\<close> (also as
  a failing diff builder left it), \<^verbatim>\<open>creationHeight\<close>, and from the target block on as
  \<open>outcome_from_target\<close> says, with the returned \<^verbatim>\<open>bool\<close> false. The fields written are
  not restored.
\<close>

theorem failed_build_stops_at_first_failure:
  assumes "BuildQuorumRotationInfo env request r e m = Some (False, r', e', m')"
  shows
   "(4 < unat (baseBlockHashesNb request)
       \<and> r' = r \<and> e' = ''invalid requested baseBlockHashesNb'' \<and> m' = m)
  \<or> (unat (baseBlockHashesNb request) \<le> 4
       \<and> unat (baseBlockHashesNb request) \<noteq> length (baseBlockHashes request)
       \<and> r' = r \<and> e' = ''missmatch requested baseBlockHashesNb and size(baseBlockHashes)''
       \<and> m' = m)
  \<or> (unat (baseBlockHashesNb request) \<le> 4
       \<and> unat (baseBlockHashesNb request) = length (baseBlockHashes request)
       \<and> ((baseBlockHashesNb request = 0 \<and> Genesis env = None
             \<and> r' = r \<and> e' = ''genesis block not found'' \<and> m' = m)
          \<or> (baseBlockHashesNb request \<noteq> 0
             \<and> first_bad_base_hash env (baseBlockHashes request) e' \<and> r' = r \<and> m' = m)
          \<or> (\<exists>bases. base_block_indexes env request = Inr bases
             \<and> ((Tip env = None \<and> r' = r \<and> e' = ''tip block not found'' \<and> m' = m)
                \<or> (\<exists>tip d. Tip env = Some tip
                   \<and> BuildSimplifiedMNListDiff env (GetBlockHash (last bases)) (GetBlockHash tip)
                        (mnListDiffTip r) e = (False, d, e')
                   \<and> r' = r\<lparr>mnListDiffTip := d\<rparr> \<and> m' = m)
                \<or> (\<exists>tip d e1. Tip env = Some tip
                   \<and> BuildSimplifiedMNListDiff env (GetBlockHash (last bases)) (GetBlockHash tip)
                        (mnListDiffTip r) e = (True, d, e1)
                   \<and> ((LookupBlockIndex env (blockRequestHash request) = None
                         \<and> r' = r\<lparr>mnListDiffTip := d\<rparr> \<and> e' = ''block not found'' \<and> m' = m)
                      \<or> (\<exists>b. LookupBlockIndex env (blockRequestHash request) = Some b
                         \<and> outcome_from_target env bases tip b (r\<lparr>mnListDiffTip := d\<rparr>) e1 m
                              False r' e' m')))))))"
proof (cases "4 < unat (baseBlockHashesNb request)")
  case True
  with assms show ?thesis by (simp add: BuildQuorumRotationInfo_def)
next
  case nb: False
  show ?thesis
  proof (cases "unat (baseBlockHashesNb request) = length (baseBlockHashes request)")
    case False
    with assms nb show ?thesis by (simp add: BuildQuorumRotationInfo_def)
  next
    case len: True
    have "(baseBlockHashesNb request = 0 \<and> Genesis env = None
             \<and> r' = r \<and> e' = ''genesis block not found'' \<and> m' = m)
          \<or> (baseBlockHashesNb request \<noteq> 0
             \<and> first_bad_base_hash env (baseBlockHashes request) e' \<and> r' = r \<and> m' = m)
          \<or> (\<exists>bases. base_block_indexes env request = Inr bases
             \<and> ((Tip env = None \<and> r' = r \<and> e' = ''tip block not found'' \<and> m' = m)
                \<or> (\<exists>tip d. Tip env = Some tip
                   \<and> BuildSimplifiedMNListDiff env (GetBlockHash (last bases)) (GetBlockHash tip)
                        (mnListDiffTip r) e = (False, d, e')
                   \<and> r' = r\<lparr>mnListDiffTip := d\<rparr> \<and> m' = m)
                \<or> (\<exists>tip d e1. Tip env = Some tip
                   \<and> BuildSimplifiedMNListDiff env (GetBlockHash (last bases)) (GetBlockHash tip)
                        (mnListDiffTip r) e = (True, d, e1)
                   \<and> ((LookupBlockIndex env (blockRequestHash request) = None
                         \<and> r' = r\<lparr>mnListDiffTip := d\<rparr> \<and> e' = ''block not found'' \<and> m' = m)
                      \<or> (\<exists>b. LookupBlockIndex env (blockRequestHash request) = Some b
                         \<and> outcome_from_target env bases tip b (r\<lparr>mnListDiffTip := d\<rparr>) e1 m
                              False r' e' m')))))"
    proof (cases "base_block_indexes env request")
      case (Inl err)
      with assms nb len have "r' = r" "e' = err" "m' = m"
        by (simp_all add: BuildQuorumRotationInfo_def)
      with base_block_indexes_Inl_first [OF Inl] show ?thesis by blast
    next
      case (Inr bases)
      have "(Tip env = None \<and> r' = r \<and> e' = ''tip block not found'' \<and> m' = m)
                \<or> (\<exists>tip d. Tip env = Some tip
                   \<and> BuildSimplifiedMNListDiff env (GetBlockHash (last bases)) (GetBlockHash tip)
                        (mnListDiffTip r) e = (False, d, e')
                   \<and> r' = r\<lparr>mnListDiffTip := d\<rparr> \<and> m' = m)
                \<or> (\<exists>tip d e1. Tip env = Some tip
                   \<and> BuildSimplifiedMNListDiff env (GetBlockHash (last bases)) (GetBlockHash tip)
                        (mnListDiffTip r) e = (True, d, e1)
                   \<and> ((LookupBlockIndex env (blockRequestHash request) = None
                         \<and> r' = r\<lparr>mnListDiffTip := d\<rparr> \<and> e' = ''block not found'' \<and> m' = m)
                      \<or> (\<exists>b. LookupBlockIndex env (blockRequestHash request) = Some b
                         \<and> outcome_from_target env bases tip b (r\<lparr>mnListDiffTip := d\<rparr>) e1 m
                              False r' e' m')))"
      proof (cases "Tip env")
        case None
        with assms nb len Inr show ?thesis by (simp add: BuildQuorumRotationInfo_def)
      next
        case (Some tip)
        obtain k d e1 where b: "BuildSimplifiedMNListDiff env (GetBlockHash (last bases))
            (GetBlockHash tip) (mnListDiffTip r) e = (k, d, e1)"
          by (rule prod_cases3)
        show ?thesis
        proof (cases k)
          case False
          with assms nb len Inr Some b have "r' = r\<lparr>mnListDiffTip := d\<rparr>" "e' = e1" "m' = m"
            by (simp_all add: BuildQuorumRotationInfo_def)
          with Some b False show ?thesis by simp
        next
          case True
          have "(LookupBlockIndex env (blockRequestHash request) = None
                         \<and> r' = r\<lparr>mnListDiffTip := d\<rparr> \<and> e' = ''block not found'' \<and> m' = m)
                      \<or> (\<exists>b. LookupBlockIndex env (blockRequestHash request) = Some b
                         \<and> outcome_from_target env bases tip b (r\<lparr>mnListDiffTip := d\<rparr>) e1 m
                              False r' e' m')"
          proof (cases "LookupBlockIndex env (blockRequestHash request)")
            case None
            with assms nb len Inr Some b True show ?thesis
              by (simp add: BuildQuorumRotationInfo_def)
          next
            case (Some blk)
            with assms nb len Inr \<open>Tip env = Some tip\<close> b True
            have "build_from_target env bases tip blk (r\<lparr>mnListDiffTip := d\<rparr>) e1 m
                    = Some (False, r', e', m')"
              by (simp add: BuildQuorumRotationInfo_def)
            from build_from_target_outcome [OF this] Some show ?thesis by simp
          qed
          with Some b True show ?thesis by simp
        qed
      qed
      with Inr show ?thesis by simp
    qed
    with nb len show ?thesis by simp
  qed
qed

theorem failed_build_stops_at_first_failure_witness:
  "BuildQuorumRotationInfo example_env (example_request 100) empty_response [] mgr_without_2C
     = Some (False, empty_response\<lparr>mnListDiffTip := (80, 120), creationHeight := 96,
                                   mnListDiffAtHMinusC := (30, 72),
                                   quorumSnapshotAtHMinusC := example_snapshot 1,
                                   mnListDiffAtHMinus2C := (30, 48)\<rparr>,
             ''Can not find quorum snapshot at H-C'', mgr_without_2C)
   \<and> outcome_from_target example_env [main_block 30, main_block 80] (main_block 120)
       (main_block 100) (empty_response\<lparr>mnListDiffTip := (80, 120)\<rparr>) [] mgr_without_2C
       False
       (empty_response\<lparr>mnListDiffTip := (80, 120), creationHeight := 96,
                                   mnListDiffAtHMinusC := (30, 72),
                                   quorumSnapshotAtHMinusC := example_snapshot 1,
                                   mnListDiffAtHMinus2C := (30, 48)\<rparr>)
       ''Can not find quorum snapshot at H-C'' mgr_without_2C"
proof -
  from failed_build_stops_at_first_failure [OF run_no_2C]
  have "outcome_from_target example_env [main_block 30, main_block 80] (main_block 120)
       (main_block 100) (empty_response\<lparr>mnListDiffTip := (80, 120)\<rparr>) [] mgr_without_2C
       False
       (empty_response\<lparr>mnListDiffTip := (80, 120), creationHeight := 96,
                                   mnListDiffAtHMinusC := (30, 72),
                                   quorumSnapshotAtHMinusC := example_snapshot 1,
                                   mnListDiffAtHMinus2C := (30, 48)\<rparr>)
       ''Can not find quorum snapshot at H-C'' mgr_without_2C"
    by (simp add: bases example_request_simps example_env_simps main_block_simps)
       (simp add: empty_response_def)
  with run_no_2C show ?thesis by (intro conjI)
qed

text \<open>
  C5, as the specification has it, fails: with no snapshot stored the call returns false
  for the missing snapshot at H-C, and the response of the caller holds the tip diff,
  \<^verbatim>\<open>creationHeight\<close> 96 and the diff at H-C of the failed call.
\<close>

theorem failed_build_partial_response_counterexample:
  "BuildQuorumRotationInfo example_env (example_request 100) empty_response [] mgr_without_snapshots
     = Some (False, empty_response\<lparr>mnListDiffTip := (80, 120), creationHeight := 96,
                                   mnListDiffAtHMinusC := (30, 72)\<rparr>,
             ''Can not find quorum snapshot at H-C'', mgr_without_snapshots)
   \<and> empty_response\<lparr>mnListDiffTip := (80, 120), creationHeight := 96,
                      mnListDiffAtHMinusC := (30, 72)\<rparr> \<noteq> empty_response
   \<and> creationHeight empty_response = 0
   \<and> creationHeight (empty_response\<lparr>mnListDiffTip := (80, 120), creationHeight := 96,
                      mnListDiffAtHMinusC := (30, 72)\<rparr>) = 96"
  using run_no_snapshots by (simp add: empty_response_def)

text \<open>
  C6. The error of a missing snapshot is to tell at which of H-C, H-2C and H-3C the
  snapshot is missing. The code sets the same text in the three places: with the
  snapshot at H-C in the cache and none at H-2C the text names H-C, as it does when the
  snapshot at H-C is the missing one.
\<close>

theorem snapshot_error_text_names_HMinusC_for_HMinus2C:
  "map_option (\<lambda>(ok, r, e, m). (ok, e))
     (BuildQuorumRotationInfo example_env (example_request 100) empty_response [] mgr_without_2C)
     = Some (False, ''Can not find quorum snapshot at H-C'')
   \<and> fst (GetSnapshotForBlock (SerializeHash example_env) (llmqTypeInstantSend example_env)
            (main_block 72) mgr_without_2C) = Some (example_snapshot 1)
   \<and> fst (GetSnapshotForBlock (SerializeHash example_env) (llmqTypeInstantSend example_env)
            (main_block 48) mgr_without_2C) = None
   \<and> map_option (\<lambda>(ok, r, e, m). (ok, e))
     (BuildQuorumRotationInfo example_env (example_request 100) empty_response []
        mgr_without_snapshots)
     = Some (False, ''Can not find quorum snapshot at H-C'')
   \<and> fst (GetSnapshotForBlock (SerializeHash example_env) (llmqTypeInstantSend example_env)
            (main_block 72) mgr_without_snapshots) = None"
  by (simp add: run_no_2C run_no_snapshots example_gets example_env_simps)

subsection \<open>Store and get\<close>

text \<open>
  C7. After \<^verbatim>\<open>StoreSnapshotForBlock\<close> the cache is to map the key to the stored snapshot,
  whatever it held. \<^verbatim>\<open>emplace\<close> leaves an entry that is there: a second store under the
  same key, of another snapshot, leaves the first snapshot in the cache.
\<close>

theorem StoreSnapshotForBlock_keeps_cached_snapshot:
  "quorumSnapshotCache
     (StoreSnapshotForBlock (SerializeHash example_env) 1 (main_block 72) (example_snapshot 2)
        (StoreSnapshotForBlock (SerializeHash example_env) 1 (main_block 72) (example_snapshot 1)
           mgr_without_snapshots))
     (SerializeHash example_env (1, GetBlockHash (main_block 72)))
   = Some (example_snapshot 1)
   \<and> example_snapshot 1 \<noteq> example_snapshot 2"
  by (simp add: StoreSnapshotForBlock_cache mgr_without_snapshots_def example_snapshot_def)


text \<open>
  C8. \<^verbatim>\<open>StoreSnapshotForBlock\<close> followed by \<^verbatim>\<open>GetSnapshotForBlock\<close> is to return the stored
  snapshot, also when the cache held an entry. After the two stores above the get
  returns the first snapshot from the cache, while the persistent store holds the second.
  (From a cache without the key the stored snapshot is returned: \<open>Store_then_Get_cold\<close>.)
\<close>

theorem Store_then_Get_returns_cached_snapshot:
  "fst (GetSnapshotForBlock (SerializeHash example_env) 1 (main_block 72)
     (StoreSnapshotForBlock (SerializeHash example_env) 1 (main_block 72) (example_snapshot 2)
        (StoreSnapshotForBlock (SerializeHash example_env) 1 (main_block 72) (example_snapshot 1)
           mgr_without_snapshots)))
   = Some (example_snapshot 1)
   \<and> Read_db (evoDb
     (StoreSnapshotForBlock (SerializeHash example_env) 1 (main_block 72) (example_snapshot 2)
        (StoreSnapshotForBlock (SerializeHash example_env) 1 (main_block 72) (example_snapshot 1)
           mgr_without_snapshots)))
     (DB_QUORUM_SNAPSHOT, SerializeHash example_env (1, GetBlockHash (main_block 72)))
   = Some (example_snapshot 2)
   \<and> example_snapshot 1 \<noteq> example_snapshot 2"
  by (simp add: Store_then_Get StoreSnapshotForBlock_cache StoreSnapshotForBlock_evoDb
        mgr_without_snapshots_def example_snapshot_def)


subsection \<open>A target block on a side fork\<close>

text \<open>
  C10. Let \<^verbatim>\<open>blockRequestHash\<close> resolve to a block \<open>b\<close> that is not on the active chain.
  First, when \<open>b\<close> is not also the block of a base hash, the call returns what it
  returns on the chain view that differs only in holding \<open>b\<close> on the active chain.
  Second, an error of the base block stage is about a hash of \<^verbatim>\<open>baseBlockHashes\<close> (or
  the missing genesis block): only those are checked against the active chain. Third,
  when the request is well-formed, the base blocks, the tip and the tip diff are found
  and the remainder is defined, the call goes on to the ancestor of \<open>b\<close> at the cycle
  start: it fails with the text of block H when there is none, and otherwise every result
  it returns has the height of that ancestor as \<^verbatim>\<open>creationHeight\<close>. Fourth, every result
  of such a call, failed or not, is the one \<open>outcome_from_target\<close> gives for \<open>b\<close>: the
  failures are those of the blocks H, H-C, H-2C, H-3C, of the diffs and of the snapshots,
  and none is about \<open>b\<close> and the active chain.
\<close>

theorem side_fork_target_not_checked:
  assumes target: "LookupBlockIndex env (blockRequestHash request) = Some b"
    and fork: "\<not> Contains env b"
  shows "((\<forall>h \<in> set (baseBlockHashes request). LookupBlockIndex env h \<noteq> Some b) \<longrightarrow>
            BuildQuorumRotationInfo (env\<lparr>Contains := (Contains env)(b := True)\<rparr>) request r e m
              = BuildQuorumRotationInfo env request r e m)
       \<and> (\<forall>err. base_block_indexes env request = Inl err \<longrightarrow>
            (baseBlockHashesNb request = 0 \<and> Genesis env = None \<and> err = ''genesis block not found'')
          \<or> (\<exists>h \<in> set (baseBlockHashes request).
                (LookupBlockIndex env h = None \<and> err = ''block '' @ ToString env h @ '' not found'')
              \<or> (\<exists>bb. LookupBlockIndex env h = Some bb \<and> \<not> Contains env bb
                     \<and> err = ''block '' @ ToString env h @ '' is not in the active chain'')))
       \<and> (\<forall>bases tip d e1.
              unat (baseBlockHashesNb request) \<le> 4
            \<and> unat (baseBlockHashesNb request) = length (baseBlockHashes request)
            \<and> base_block_indexes env request = Inr bases
            \<and> Tip env = Some tip
            \<and> BuildSimplifiedMNListDiff env (GetBlockHash (last bases)) (GetBlockHash tip)
                 (mnListDiffTip r) e = (True, d, e1)
            \<and> dkgInterval env (llmqTypeInstantSend env) \<noteq> 0
            \<and> INT_MIN \<le> nHeight b \<and> nHeight b \<le> INT_MAX
            \<and> \<not> (nHeight b = INT_MIN \<and> dkgInterval env (llmqTypeInstantSend env) = - 1)
            \<longrightarrow>
              (case GetAncestor env b
                      (nHeight b - nHeight b smod dkgInterval env (llmqTypeInstantSend env)) of
                 None \<Rightarrow>
                   BuildQuorumRotationInfo env request r e m
                     = Some (False, r\<lparr>mnListDiffTip := d\<rparr>, ''Can not find block H'', m)
               | Some hBlockIndex \<Rightarrow>
                   (\<forall>res. BuildQuorumRotationInfo env request r e m = Some res \<longrightarrow>
                      creationHeight (fst (snd res)) = nHeight hBlockIndex)))
       \<and> (\<forall>bases tip d e1 ok r' e' m'.
              unat (baseBlockHashesNb request) \<le> 4
            \<and> unat (baseBlockHashesNb request) = length (baseBlockHashes request)
            \<and> base_block_indexes env request = Inr bases
            \<and> Tip env = Some tip
            \<and> BuildSimplifiedMNListDiff env (GetBlockHash (last bases)) (GetBlockHash tip)
                 (mnListDiffTip r) e = (True, d, e1)
            \<and> BuildQuorumRotationInfo env request r e m = Some (ok, r', e', m')
            \<longrightarrow> outcome_from_target env bases tip b (r\<lparr>mnListDiffTip := d\<rparr>) e1 m ok r' e' m')"
proof (intro conjI allI impI)
  assume nb: "\<forall>h \<in> set (baseBlockHashes request). LookupBlockIndex env h \<noteq> Some b"
  then have "\<forall>h \<in> set (baseBlockHashes request). \<forall>bb. LookupBlockIndex env h = Some bb \<longrightarrow>
               ((Contains env)(b := True)) bb = Contains env bb"
    by auto
  then show "BuildQuorumRotationInfo (env\<lparr>Contains := (Contains env)(b := True)\<rparr>) request r e m
              = BuildQuorumRotationInfo env request r e m"
    by (rule BuildQuorumRotationInfo_Contains)
next
  fix err
  assume "base_block_indexes env request = Inl err"
  then show "(baseBlockHashesNb request = 0 \<and> Genesis env = None \<and> err = ''genesis block not found'')
          \<or> (\<exists>h \<in> set (baseBlockHashes request).
                (LookupBlockIndex env h = None \<and> err = ''block '' @ ToString env h @ '' not found'')
              \<or> (\<exists>bb. LookupBlockIndex env h = Some bb \<and> \<not> Contains env bb
                     \<and> err = ''block '' @ ToString env h @ '' is not in the active chain''))"
    by (rule base_block_indexes_Inl)
next
  fix bases tip d e1
  let ?c = "dkgInterval env (llmqTypeInstantSend env)"
  assume a: "unat (baseBlockHashesNb request) \<le> 4
            \<and> unat (baseBlockHashesNb request) = length (baseBlockHashes request)
            \<and> base_block_indexes env request = Inr bases
            \<and> Tip env = Some tip
            \<and> BuildSimplifiedMNListDiff env (GetBlockHash (last bases)) (GetBlockHash tip)
                 (mnListDiffTip r) e = (True, d, e1)
            \<and> ?c \<noteq> 0
            \<and> INT_MIN \<le> nHeight b \<and> nHeight b \<le> INT_MAX
            \<and> \<not> (nHeight b = INT_MIN \<and> ?c = - 1)"
  then have top: "BuildQuorumRotationInfo env request r e m
                  = build_from_target env bases tip b (r\<lparr>mnListDiffTip := d\<rparr>) e1 m"
    using target by (simp add: BuildQuorumRotationInfo_def)
  from a have rs: "Option.bind (int_rem (nHeight b) ?c) (int_sub (nHeight b))
                     = Some (nHeight b - nHeight b smod ?c)"
    by (intro rem_sub_defined) simp_all
  show "case GetAncestor env b (nHeight b - nHeight b smod ?c) of
          None \<Rightarrow>
            BuildQuorumRotationInfo env request r e m
              = Some (False, r\<lparr>mnListDiffTip := d\<rparr>, ''Can not find block H'', m)
        | Some hBlockIndex \<Rightarrow>
            (\<forall>res. BuildQuorumRotationInfo env request r e m = Some res \<longrightarrow>
               creationHeight (fst (snd res)) = nHeight hBlockIndex)"
  proof (cases "GetAncestor env b (nHeight b - nHeight b smod ?c)")
    case None
    then show ?thesis by (simp add: top build_from_target_def rs)
  next
    case (Some hB)
    have "BuildQuorumRotationInfo env request r e m
            = build_cycle_blocks env bases tip hB
                (r\<lparr>mnListDiffTip := d, creationHeight := nHeight hB\<rparr>) e1 m"
      by (simp add: top build_from_target_def rs Some)
    then have "\<forall>res. BuildQuorumRotationInfo env request r e m = Some res \<longrightarrow>
               creationHeight (fst (snd res)) = nHeight hB"
      by (auto dest: build_cycle_blocks_creationHeight)
    with Some show ?thesis by simp
  qed
next
  fix bases tip d e1 ok r' e' m'
  assume a: "unat (baseBlockHashesNb request) \<le> 4
            \<and> unat (baseBlockHashesNb request) = length (baseBlockHashes request)
            \<and> base_block_indexes env request = Inr bases
            \<and> Tip env = Some tip
            \<and> BuildSimplifiedMNListDiff env (GetBlockHash (last bases)) (GetBlockHash tip)
                 (mnListDiffTip r) e = (True, d, e1)
            \<and> BuildQuorumRotationInfo env request r e m = Some (ok, r', e', m')"
  then have a1: "unat (baseBlockHashesNb request) \<le> 4"
      "unat (baseBlockHashesNb request) = length (baseBlockHashes request)"
      "base_block_indexes env request = Inr bases" "Tip env = Some tip"
      "BuildSimplifiedMNListDiff env (GetBlockHash (last bases)) (GetBlockHash tip)
         (mnListDiffTip r) e = (True, d, e1)"
    and a2: "BuildQuorumRotationInfo env request r e m = Some (ok, r', e', m')"
    by simp_all
  from a1 target have "BuildQuorumRotationInfo env request r e m
                  = build_from_target env bases tip b (r\<lparr>mnListDiffTip := d\<rparr>) e1 m"
    by (simp add: BuildQuorumRotationInfo_def)
  with a2 have "build_from_target env bases tip b (r\<lparr>mnListDiffTip := d\<rparr>) e1 m
               = Some (ok, r', e', m')"
    by simp
  then show "outcome_from_target env bases tip b (r\<lparr>mnListDiffTip := d\<rparr>) e1 m ok r' e' m'"
    by (rule build_from_target_outcome)
qed

theorem side_fork_target_not_checked_witness:
  "LookupBlockIndex example_env (blockRequestHash (example_request 1100)) = Some fork_block
   \<and> \<not> Contains example_env fork_block
   \<and> GetAncestor example_env fork_block (100 - 100 smod 24) = Some (main_block 96)
   \<and> BuildQuorumRotationInfo example_env (example_request 1100) empty_response [] example_mgr
       = Some (True, example_response, [], example_mgr3)
   \<and> creationHeight example_response = nHeight (main_block 96)
   \<and> BuildQuorumRotationInfo
         (example_env\<lparr>Contains := (Contains example_env)(fork_block := True)\<rparr>)
         (example_request 1100) empty_response [] example_mgr
       = Some (True, example_response, [], example_mgr3)
   \<and> outcome_from_target example_env [main_block 30, main_block 80] (main_block 120) fork_block
       (empty_response\<lparr>mnListDiffTip := (80, 120)\<rparr>) [] example_mgr
       True example_response [] example_mgr3"
proof -
  have t: "LookupBlockIndex example_env (blockRequestHash (example_request 1100)) = Some fork_block"
    by (simp add: example_env_simps example_request_def)
  have f: "\<not> Contains example_env fork_block"
    by (simp add: example_env_simps fork_block_def main_block_def)
  have g: "GetAncestor example_env fork_block (100 - 100 smod 24) = Some (main_block 96)"
    by (simp add: example_env_simps fork_block_simps smod_int_alt_def)
  have nb: "\<forall>h \<in> set (baseBlockHashes (example_request 1100)).
              LookupBlockIndex example_env h \<noteq> Some fork_block"
    by (simp add: example_request_simps example_env_simps fork_block_def main_block_def)
  have pre: "unat (baseBlockHashesNb (example_request 1100)) \<le> 4
            \<and> unat (baseBlockHashesNb (example_request 1100)) = length (baseBlockHashes (example_request 1100))
            \<and> base_block_indexes example_env (example_request 1100) = Inr [main_block 30, main_block 80]
            \<and> Tip example_env = Some (main_block 120)
            \<and> BuildSimplifiedMNListDiff example_env (GetBlockHash (last [main_block 30, main_block 80]))
                 (GetBlockHash (main_block 120)) (mnListDiffTip empty_response) [] = (True, (80, 120), [])"
    by (simp add: bases example_env_simps main_block_simps example_request_simps)
  have rng: "dkgInterval example_env (llmqTypeInstantSend example_env) \<noteq> 0
            \<and> INT_MIN \<le> nHeight fork_block \<and> nHeight fork_block \<le> INT_MAX
            \<and> \<not> (nHeight fork_block = INT_MIN \<and> dkgInterval example_env (llmqTypeInstantSend example_env) = - 1)"
    by (simp add: example_env_simps fork_block_simps INT_MIN_def INT_MAX_def)
  note inst = side_fork_target_not_checked [OF t f, of empty_response "[]" example_mgr]
  from inst nb have ind: "BuildQuorumRotationInfo
         (example_env\<lparr>Contains := (Contains example_env)(fork_block := True)\<rparr>)
         (example_request 1100) empty_response [] example_mgr
       = Some (True, example_response, [], example_mgr3)"
    by (simp only: run_fork)
  from inst pre rng
  have "case GetAncestor example_env fork_block
               (nHeight fork_block - nHeight fork_block smod
                  dkgInterval example_env (llmqTypeInstantSend example_env)) of
          None \<Rightarrow>
            BuildQuorumRotationInfo example_env (example_request 1100) empty_response [] example_mgr
              = Some (False, empty_response\<lparr>mnListDiffTip := (80, 120)\<rparr>, ''Can not find block H'', example_mgr)
        | Some hBlockIndex \<Rightarrow>
            (\<forall>res. BuildQuorumRotationInfo example_env (example_request 1100) empty_response [] example_mgr = Some res \<longrightarrow>
               creationHeight (fst (snd res)) = nHeight hBlockIndex)"
    by blast
  then have ch: "creationHeight example_response = nHeight (main_block 96)"
    using g run_fork by (simp add: example_env_simps fork_block_simps)
  from inst pre run_fork
  have out: "outcome_from_target example_env [main_block 30, main_block 80] (main_block 120) fork_block
       (empty_response\<lparr>mnListDiffTip := (80, 120)\<rparr>) [] example_mgr
       True example_response [] example_mgr3"
    by blast
  from t f g run_fork ch ind out show ?thesis by (intro conjI)
qed

end
